theory Spec2Isabelle
  imports Main
begin

section \<open>Strings and number formatting\<close>

text \<open>
  Python strings are modelled as \<open>string\<close>; a character stands for a code point below 256.
  \<open>isspace\<close> lists the code points below 256 that Python's \<^verbatim>\<open>str.isspace\<close> accepts, and
  \<open>strip\<close> is \<^verbatim>\<open>str.strip()\<close> without arguments: leading and trailing whitespace removed.
\<close>

definition isspace :: "char \<Rightarrow> bool" where
  "isspace c = (of_char c \<in> {9, 10, 11, 12, 13, 28, 29, 30, 31, 32, 133, 160 :: nat})"

definition strip :: "string \<Rightarrow> string" where
  "strip s = rev (dropWhile isspace (rev (dropWhile isspace s)))"

definition isdigit :: "char \<Rightarrow> bool" where
  "isdigit c = (48 \<le> (of_char c :: nat) \<and> (of_char c :: nat) \<le> 57)"

definition digit_char :: "nat \<Rightarrow> char" where
  "digit_char d = char_of (48 + d)"

text \<open>
  \<open>str_nat n\<close> is Python's \<^verbatim>\<open>str(n)\<close> for a non-negative integer, and \<open>format_06d n\<close> is
  the format specification \<^verbatim>\<open>f"{n:06d}"\<close> for a non-negative integer: the decimal digits,
  padded on the left with the character 0 up to width 6 (a longer number is not cut).
\<close>

fun str_nat :: "nat \<Rightarrow> string" where
  "str_nat n = (if n < 10 then [digit_char n] else str_nat (n div 10) @ [digit_char (n mod 10)])"

declare str_nat.simps [simp del]

definition format_06d :: "nat \<Rightarrow> string" where
  "format_06d n = replicate (6 - length (str_nat n)) CHR ''0'' @ str_nat n"

text \<open>The integer a string of decimal digits denotes (Python's \<^verbatim>\<open>int(s)\<close> on such a string).\<close>

definition int_of_str :: "string \<Rightarrow> nat" where
  "int_of_str s = foldl (\<lambda>a c. 10 * a + (of_char c - 48)) 0 s"

section \<open>Settings and time\<close>

text \<open>
  The views read three optional settings with \<^verbatim>\<open>getattr(settings, NAME, default)\<close>;
  \<^verbatim>\<open>settings.py\<close> of the repository defines none of them, so there the defaults apply.
  A point in time is an integer number of microseconds (the resolution of a Python
  \<^verbatim>\<open>datetime\<close>); the challenge stores its expiry with \<^verbatim>\<open>isoformat()\<close> and reads it back with
  \<^verbatim>\<open>fromisoformat\<close>, which returns the same instant.
\<close>

record settings =
  OTP_TTL_MINUTES :: "int option"
  OTP_MAX_ATTEMPTS :: "int option"
  ACCESS_NOTIFY_COOLDOWN_MINUTES :: "int option"
  DEFAULT_FROM_EMAIL :: "string option"

definition getattr :: "'a option \<Rightarrow> 'a \<Rightarrow> 'a" where
  "getattr v d = (case v of None \<Rightarrow> d | Some x \<Rightarrow> x)"

definition project_settings :: settings where
  "project_settings = \<lparr>OTP_TTL_MINUTES = None, OTP_MAX_ATTEMPTS = None,
     ACCESS_NOTIFY_COOLDOWN_MINUTES = None, DEFAULT_FROM_EMAIL = None\<rparr>"

definition timedelta_minutes :: "int \<Rightarrow> int" where
  "timedelta_minutes m = m * 60000000"

definition timedelta_seconds :: "int \<Rightarrow> int" where
  "timedelta_seconds n = n * 1000000"

section \<open>Data model\<close>

record medical_profile =
  pk :: nat
  national_id :: string
  full_name :: string
  owner_email :: string

record access_log =
  log_id :: nat
  profile_id :: nat
  event_type :: string
  viewer_email :: string
  reason :: string
  ip_address :: "string option"
  user_agent :: string
  created_at :: int
  notified :: bool

definition EVENT_CHOICES :: "(string \<times> string) list" where
  "EVENT_CHOICES =
    [(''public_view'', ''Public Profile Viewed''),
     (''doctor_view'', ''Doctor Full View''),
     (''doctor_health_view'', ''Doctor Health Monitoring View''),
     (''download_html'', ''Doctor Download HTML''),
     (''download_pdf'', ''Doctor Download PDF'')]"

definition get_event_type_display :: "access_log \<Rightarrow> string" where
  "get_event_type_display e =
    (case map_of EVENT_CHOICES (event_type e) of None \<Rightarrow> event_type e | Some d \<Rightarrow> d)"

text \<open>The pending challenge is the dictionary that \<^verbatim>\<open>doctor_access\<close> stores in the session.\<close>

record otp_challenge =
  email :: string
  code :: string
  expires_at :: int
  attempts :: int

text \<open>
  The session is one dictionary from string keys to values of several kinds: the pending
  challenge under \<^verbatim>\<open>otp_pending_<id>\<close>, the flag \<^verbatim>\<open>True\<close> under \<^verbatim>\<open>doctor_access_<id>\<close>, and
  strings under \<^verbatim>\<open>doctor_access_<id>_email\<close> and \<^verbatim>\<open>doctor_access_<id>_reason\<close>.
  \<open>truthy\<close> is Python's truth value of \<^verbatim>\<open>session.get(key)\<close>.
\<close>

datatype session_value = SDict otp_challenge | SBool bool | SStr string

type_synonym session = "string \<Rightarrow> session_value option"

fun truthy :: "session_value option \<Rightarrow> bool" where
  "truthy None = False"
| "truthy (Some (SDict p)) = True"
| "truthy (Some (SBool b)) = b"
| "truthy (Some (SStr s)) = (s \<noteq> [])"

definition otp_key :: "string \<Rightarrow> string" where
  "otp_key nid = ''otp_pending_'' @ nid"

definition access_key :: "string \<Rightarrow> string" where
  "access_key nid = ''doctor_access_'' @ nid"

section \<open>Collaborators\<close>

text \<open>
  A message handed to \<^verbatim>\<open>send_mail\<close>. The body is an f-string in the source; the model keeps
  the values it interpolates instead of the rendered text.
\<close>

datatype mail_body =
    Otp_message string string string int
  | Access_message string string int string string string string

record mail =
  subject :: string
  message :: mail_body
  from_email :: "string option"
  recipient_list :: "string list"

text \<open>
  What one call \<^verbatim>\<open>send_mail(..., fail_silently=True)\<close> does: the message is delivered;
  or delivery fails and the call returns all the same (this is what \<^verbatim>\<open>fail_silently=True\<close>
  asks for); or the call raises an exception, which that flag does not silence (building
  the message raises when a recipient holds a line break, for one).
\<close>

datatype mail_outcome = Delivered | Failed_silently | Raised

text \<open>
  What a request meets outside the program: the clock, the random source, the mail
  system and the database. \<open>create_outcome\<close> is \<open>None\<close> when \<^verbatim>\<open>AccessLog.objects.create\<close>
  raises, and the time of the \<^verbatim>\<open>auto_now_add\<close> field otherwise; \<open>save_ok\<close> is whether
  \<^verbatim>\<open>log_obj.save\<close> succeeds.
\<close>

record environment =
  now :: int
  randbelow :: "nat \<Rightarrow> nat"
  send_mail_outcome :: mail_outcome
  create_outcome :: "int option"
  save_ok :: bool
  weasyprint_available :: bool

text \<open>The state shared by all requests: the two tables and the messages handed to \<^verbatim>\<open>send_mail\<close>.\<close>

record world =
  profiles :: "medical_profile list"
  access_logs :: "access_log list"
  outbox :: "mail list"

text \<open>The field \<open>http_method\<close> is \<^verbatim>\<open>request.method\<close>.\<close>

record request =
  http_method :: string
  POST :: "string \<Rightarrow> string option"
  META :: "string \<Rightarrow> string option"
  session :: session

text \<open>The template context of \<^verbatim>\<open>medical/doctor_access.html\<close> (the profile apart).\<close>

record page_context =
  otp_pending :: bool
  email_value :: string
  otp_info :: "string option"
  error :: "string option"

datatype response =
    Render page_context int
  | Redirect string string
  | Page string int

datatype failure = Http404 | Uncaught_exception

text \<open>\<^verbatim>\<open>national_id\<close> is unique in the table, so the first match is the only one.\<close>

definition get_object_or_404 :: "medical_profile list \<Rightarrow> string \<Rightarrow> failure + medical_profile" where
  "get_object_or_404 ps nid =
    (case find (\<lambda>p. national_id p = nid) ps of None \<Rightarrow> Inl Http404 | Some p \<Rightarrow> Inr p)"

text \<open>\<^verbatim>\<open>request.POST.get(name) or ''\<close>\<close>

definition post_or_empty :: "request \<Rightarrow> string \<Rightarrow> string" where
  "post_or_empty request name = (case POST request name of None \<Rightarrow> [] | Some v \<Rightarrow> v)"

definition client_ip :: "request \<Rightarrow> string option" where
  "client_ip request =
    (case META request ''HTTP_X_FORWARDED_FOR'' of
       None \<Rightarrow> META request ''REMOTE_ADDR''
     | Some xff \<Rightarrow>
         if xff = [] then META request ''REMOTE_ADDR''
         else Some (strip (takeWhile (\<lambda>c. c \<noteq> CHR '','') xff)))"

definition user_agent_of :: "request \<Rightarrow> string" where
  "user_agent_of request = (case META request ''HTTP_USER_AGENT'' of None \<Rightarrow> [] | Some v \<Rightarrow> v)"

section \<open>The doctor-access view: issuing and verifying a one-time code\<close>

text \<open>The branch \<^verbatim>\<open>action == 'send_otp'\<close> of \<^verbatim>\<open>doctor_access\<close>.\<close>

definition send_otp ::
  "settings \<Rightarrow> environment \<Rightarrow> world \<Rightarrow> request \<Rightarrow> medical_profile \<Rightarrow> page_context
    \<Rightarrow> failure + (response \<times> session \<times> world)" where
  "send_otp cfg env w request profile ctx =
    (let addr = strip (post_or_empty request ''email'') in
     if (if addr = [] then True else CHR ''@'' \<notin> set addr) then
       Inr (Render (ctx\<lparr>error := Some ''Enter a valid email address to receive the OTP.''\<rparr>) 400,
            session request, w)
     else
       let otp = format_06d (randbelow env 1000000);
           expiry = now env + timedelta_minutes (getattr (OTP_TTL_MINUTES cfg) 5);
           s1 = (session request)(otp_key (national_id profile) \<mapsto>
                  SDict \<lparr>email = addr, code = otp, expires_at = expiry, attempts = 0\<rparr>);
           m = \<lparr>subject = ''Your One-Time Access Code'',
                message = Otp_message (full_name profile) (national_id profile) otp
                            (getattr (OTP_TTL_MINUTES cfg) 5),
                from_email = DEFAULT_FROM_EMAIL cfg,
                recipient_list = [addr]\<rparr>;
           w1 = w\<lparr>outbox := outbox w @ [m]\<rparr>
       in case send_mail_outcome env of
            Raised \<Rightarrow> Inl Uncaught_exception
          | _ \<Rightarrow>
              Inr (Render (ctx\<lparr>otp_pending := True, email_value := addr,
                      otp_info := Some (''An OTP has been sent to '' @ addr @ ''. Please enter it below.'')\<rparr>) 200,
                   s1, w1))"

text \<open>
  The branch \<^verbatim>\<open>action == 'verify_otp'\<close> of \<^verbatim>\<open>doctor_access\<close>. Its local variables
  \<^verbatim>\<open>code_input\<close> and \<^verbatim>\<open>reason\<close> are the two form fields, stripped.
\<close>

definition code_input :: "request \<Rightarrow> string" where
  "code_input request = strip (post_or_empty request ''access_code'')"

definition reason_input :: "request \<Rightarrow> string" where
  "reason_input request = strip (post_or_empty request ''reason'')"

definition verify_otp ::
  "settings \<Rightarrow> environment \<Rightarrow> world \<Rightarrow> request \<Rightarrow> medical_profile \<Rightarrow> page_context
    \<Rightarrow> failure + (response \<times> session \<times> world)" where
  "verify_otp cfg env w request profile ctx =
    (let code_in = code_input request;
         rsn = reason_input request;
         key = otp_key (national_id profile);
         granted = access_key (national_id profile);
         pending = session request key
     in
     if \<not> truthy pending then
       Inr (Render (ctx\<lparr>error := Some ''Request an OTP first by entering your email.''\<rparr>) 400,
            session request, w)
     else
       case pending of
         Some (SDict p) \<Rightarrow>
           if now env > expires_at p then
             Inr (Render (ctx\<lparr>error := Some ''The OTP has expired. Please request a new one.'',
                                  otp_pending := False, email_value := []\<rparr>) 400,
                  (session request)(key := None), w)
           else if attempts p \<ge> getattr (OTP_MAX_ATTEMPTS cfg) 5 then
             Inr (Render (ctx\<lparr>error := Some ''Too many attempts. Please request a new OTP.''\<rparr>) 429,
                  session request, w)
           else if rsn = [] then
             Inr (Render (ctx\<lparr>error := Some ''Reason for access is required.'',
                                  otp_pending := True, email_value := email p\<rparr>) 400,
                  session request, w)
           else if code_in \<noteq> [] \<and> code_in = code p then
             Inr (Redirect ''doctor_profile'' (national_id profile),
                  ((session request)
                     (granted \<mapsto> SBool True,
                      granted @ ''_email'' \<mapsto> SStr (email p),
                      granted @ ''_reason'' \<mapsto> SStr rsn))
                     (key := None),
                  w)
           else
             Inr (Render (ctx\<lparr>error := Some ''Invalid code. Please try again.'',
                                  otp_pending := True, email_value := email p\<rparr>) 401,
                  (session request)(key \<mapsto> SDict (p\<lparr>attempts := attempts p + 1\<rparr>)), w)
       | _ \<Rightarrow> Inl Uncaught_exception)"

text \<open>
  The view itself. A value under the challenge key that is true but no dictionary makes
  \<^verbatim>\<open>pending.get('email')\<close> raise; the view never stores one.
\<close>

definition doctor_access ::
  "settings \<Rightarrow> environment \<Rightarrow> world \<Rightarrow> request \<Rightarrow> string
    \<Rightarrow> failure + (response \<times> session \<times> world)" where
  "doctor_access cfg env w request nid =
    (case get_object_or_404 (profiles w) nid of
       Inl f \<Rightarrow> Inl f
     | Inr profile \<Rightarrow>
         (let pending = session request (otp_key (national_id profile)) in
          (case (if truthy pending
                 then (case pending of Some (SDict p) \<Rightarrow> Some (email p) | _ \<Rightarrow> None)
                 else Some [])
           of
             None \<Rightarrow> Inl Uncaught_exception
           | Some shown \<Rightarrow>
               (let ctx = \<lparr>otp_pending = truthy pending, email_value = shown,
                              otp_info = None, error = None\<rparr>
                in
                if http_method request = ''POST'' then
                  if POST request ''action'' = Some ''send_otp'' then
                    send_otp cfg env w request profile ctx
                  else if POST request ''action'' = Some ''verify_otp'' then
                    verify_otp cfg env w request profile ctx
                  else
                    Inr (Render (ctx\<lparr>error := Some ''Invalid action.''\<rparr>) 400,
                         session request, w)
                else Inr (Render ctx 200, session request, w)))))"

section \<open>The access log and the owner notification\<close>

text \<open>
  \<^verbatim>\<open>AccessLog.objects.create(...)\<close>: a new row with a fresh key, the current time and
  \<^verbatim>\<open>notified = False\<close>; \<open>None\<close> when the database raises.
\<close>

definition fresh_id :: "access_log list \<Rightarrow> nat" where
  "fresh_id rows = Suc (foldr max (map log_id rows) 0)"

definition create_access_log ::
  "environment \<Rightarrow> world \<Rightarrow> medical_profile \<Rightarrow> string \<Rightarrow> string \<Rightarrow> string \<Rightarrow> string option
    \<Rightarrow> string \<Rightarrow> (access_log \<times> world) option" where
  "create_access_log env w profile ev viewer rsn ip ua =
    (case create_outcome env of
       None \<Rightarrow> None
     | Some t \<Rightarrow>
         let row = \<lparr>log_id = fresh_id (access_logs w), profile_id = pk profile, event_type = ev,
                    viewer_email = viewer, reason = rsn, ip_address = ip, user_agent = ua,
                    created_at = t, notified = False\<rparr>
         in Some (row, w\<lparr>access_logs := access_logs w @ [row]\<rparr>))"

text \<open>\<^verbatim>\<open>request.session.get(key, '')\<close> where the view stores a string.\<close>

definition session_str :: "session \<Rightarrow> string \<Rightarrow> string" where
  "session_str s key = (case s key of Some (SStr v) \<Rightarrow> v | _ \<Rightarrow> [])"

text \<open>
  \<^verbatim>\<open>_notify_owner_if_needed(profile, event_type, log_obj)\<close>. The query counts the rows of
  this profile and of the event type passed in that are marked notified and are not older
  than the cooldown. After \<^verbatim>\<open>send_mail\<close> returns, the row of \<open>log_obj\<close> is marked and saved;
  an exception of \<^verbatim>\<open>send_mail\<close> or of \<^verbatim>\<open>save\<close> is caught and dropped.
\<close>

definition notify_owner_if_needed ::
  "settings \<Rightarrow> environment \<Rightarrow> world \<Rightarrow> medical_profile \<Rightarrow> string \<Rightarrow> access_log \<Rightarrow> world" where
  "notify_owner_if_needed cfg env w profile ev log_obj =
    (if owner_email profile = [] then w
     else
       let mins = getattr (ACCESS_NOTIFY_COOLDOWN_MINUTES cfg) 30;
           since = now env - timedelta_minutes mins;
           recent = (filter (\<lambda>e. profile_id e = pk profile \<and> event_type e = ev \<and> notified e
                                  \<and> since \<le> created_at e) (access_logs w) \<noteq> [])
       in
       if recent then w
       else
         let m = \<lparr>subject = ''Access to your medical profile ('' @ full_name profile @ '')'',
                  message = Access_message (full_name profile) (get_event_type_display log_obj)
                     (created_at log_obj)
                     (if viewer_email log_obj = [] then ''unknown'' else viewer_email log_obj)
                     (if reason log_obj = [] then ''N/A'' else reason log_obj)
                     (case ip_address log_obj of None \<Rightarrow> ''N/A''
                      | Some a \<Rightarrow> if a = [] then ''N/A'' else a)
                     (take 200 (user_agent log_obj)),
                  from_email = DEFAULT_FROM_EMAIL cfg,
                  recipient_list = [owner_email profile]\<rparr>;
             w1 = w\<lparr>outbox := outbox w @ [m]\<rparr>
         in
         case send_mail_outcome env of
           Raised \<Rightarrow> w1
         | _ \<Rightarrow>
             if save_ok env then
               w1\<lparr>access_logs :=
                    map (\<lambda>e. if log_id e = log_id log_obj then e\<lparr>notified := True\<rparr> else e)
                      (access_logs w1)\<rparr>
             else w1)"

text \<open>
  The four protected views share their first part: the session flag, the profile, the
  log entry, the notification. \<open>recorded\<close> is the event type the view writes into the row
  and \<open>gate\<close> the one it passes to \<^verbatim>\<open>_notify_owner_if_needed\<close>.
\<close>

definition log_and_notify ::
  "settings \<Rightarrow> environment \<Rightarrow> world \<Rightarrow> request \<Rightarrow> string \<Rightarrow> medical_profile
    \<Rightarrow> string \<Rightarrow> string \<Rightarrow> world" where
  "log_and_notify cfg env w request nid profile recorded gate =
    (case create_access_log env w profile recorded
            (session_str (session request) (access_key nid @ ''_email''))
            (session_str (session request) (access_key nid @ ''_reason''))
            (client_ip request) (user_agent_of request) of
       None \<Rightarrow> w
     | Some (log_obj, w1) \<Rightarrow> notify_owner_if_needed cfg env w1 profile gate log_obj)"

definition protected_view ::
  "settings \<Rightarrow> environment \<Rightarrow> world \<Rightarrow> request \<Rightarrow> string \<Rightarrow> string \<Rightarrow> string \<Rightarrow> response
    \<Rightarrow> failure + (response \<times> world)" where
  "protected_view cfg env w request nid recorded gate resp =
    (if \<not> truthy (session request (access_key nid)) then Inr (Redirect ''doctor_access'' nid, w)
     else
       case get_object_or_404 (profiles w) nid of
         Inl f \<Rightarrow> Inl f
       | Inr profile \<Rightarrow> Inr (resp, log_and_notify cfg env w request nid profile recorded gate))"

definition doctor_profile_view ::
  "settings \<Rightarrow> environment \<Rightarrow> world \<Rightarrow> request \<Rightarrow> string \<Rightarrow> failure + (response \<times> world)" where
  "doctor_profile_view cfg env w request nid =
    protected_view cfg env w request nid ''doctor_view'' ''doctor_view''
      (Page ''medical/doctor_profile.html'' 200)"

definition doctor_profile_download ::
  "settings \<Rightarrow> environment \<Rightarrow> world \<Rightarrow> request \<Rightarrow> string \<Rightarrow> failure + (response \<times> world)" where
  "doctor_profile_download cfg env w request nid =
    protected_view cfg env w request nid ''download_html'' ''download_html''
      (Page ''medical/doctor_profile_download.html'' 200)"

definition doctor_profile_download_pdf ::
  "settings \<Rightarrow> environment \<Rightarrow> world \<Rightarrow> request \<Rightarrow> string \<Rightarrow> failure + (response \<times> world)" where
  "doctor_profile_download_pdf cfg env w request nid =
    protected_view cfg env w request nid ''download_pdf'' ''download_pdf''
      (if weasyprint_available env then Page ''application/pdf'' 200
       else Page ''text/plain'' 501)"

definition doctor_health_monitoring_view ::
  "settings \<Rightarrow> environment \<Rightarrow> world \<Rightarrow> request \<Rightarrow> string \<Rightarrow> failure + (response \<times> world)" where
  "doctor_health_monitoring_view cfg env w request nid =
    protected_view cfg env w request nid ''doctor_health_view'' ''doctor_view''
      (Page ''medical/health_monitoring_clinician.html'' 200)"

section \<open>Sessions reachable through the view\<close>

text \<open>
  A session starts empty, and every request to \<^verbatim>\<open>doctor_access\<close> that returns a response
  (whatever its HTTP verb, action, form fields, profile, clock, random draw and mail outcome)
  leaves the next session. The other views of the core only read the session.
\<close>

inductive reachable :: "settings \<Rightarrow> session \<Rightarrow> bool" for cfg :: settings where
  start: "reachable cfg Map.empty"
| step: "reachable cfg (session request) \<Longrightarrow>
         doctor_access cfg env w request nid = Inr (resp, s', w') \<Longrightarrow> reachable cfg s'"

section \<open>Example values\<close>

text \<open>Concrete inputs at which the theorems below are instantiated.\<close>

definition example_profile :: medical_profile where
  "example_profile = \<lparr>pk = 1, national_id = ''12345678'', full_name = ''Jane Doe'',
     owner_email = ''doc@example.com''\<rparr>"

definition example_world :: world where
  "example_world = \<lparr>profiles = [example_profile], access_logs = [], outbox = []\<rparr>"

definition example_env :: "int \<Rightarrow> mail_outcome \<Rightarrow> environment" where
  "example_env t outcome = \<lparr>now = t, randbelow = (\<lambda>n. 42), send_mail_outcome = outcome,
     create_outcome = Some t, save_ok = True, weasyprint_available = False\<rparr>"

definition example_challenge :: "int \<Rightarrow> otp_challenge" where
  "example_challenge n = \<lparr>email = ''nurse@example.com'', code = ''000042'',
     expires_at = 300000000, attempts = n\<rparr>"

definition send_request :: "string \<Rightarrow> session \<Rightarrow> request" where
  "send_request addr s = \<lparr>http_method = ''POST'',
     POST = [''action'' \<mapsto> ''send_otp'', ''email'' \<mapsto> addr],
     META = Map.empty, session = s\<rparr>"

definition verify_request :: "string \<Rightarrow> string \<Rightarrow> session \<Rightarrow> request" where
  "verify_request c r s = \<lparr>http_method = ''POST'',
     POST = [''action'' \<mapsto> ''verify_otp'', ''access_code'' \<mapsto> c, ''reason'' \<mapsto> r],
     META = Map.empty, session = s\<rparr>"

definition view_request :: "session \<Rightarrow> request" where
  "view_request s = \<lparr>http_method = ''GET'', POST = Map.empty,
     META = [''REMOTE_ADDR'' \<mapsto> ''10.0.0.7'', ''HTTP_USER_AGENT'' \<mapsto> ''curl/8''],
     session = s\<rparr>"

definition example_entry :: "nat \<Rightarrow> string \<Rightarrow> int \<Rightarrow> bool \<Rightarrow> access_log" where
  "example_entry i ev t n = \<lparr>log_id = i, profile_id = 1, event_type = ev,
     viewer_email = ''nurse@example.com'', reason = ''routine check'',
     ip_address = Some ''10.0.0.7'', user_agent = ''curl/8'', created_at = t, notified = n\<rparr>"

definition logged_world :: "access_log list \<Rightarrow> world" where
  "logged_world rows = \<lparr>profiles = [example_profile], access_logs = rows, outbox = []\<rparr>"

text \<open>An address that passes the test of \<^verbatim>\<open>send_otp\<close> and holds a line break (code point 10).\<close>

definition injected_address :: string where
  "injected_address = ''nurse@example.com'' @ [CHR 0x0A] @ ''Bcc: x@y.z''"

definition granted_session :: session where
  "granted_session = [access_key ''12345678'' \<mapsto> SBool True,
     access_key ''12345678'' @ ''_email'' \<mapsto> SStr ''nurse@example.com'',
     access_key ''12345678'' @ ''_reason'' \<mapsto> SStr ''routine check'']"

section \<open>Properties of the number formatting\<close>

lemma of_char_digit_char: "d < 10 \<Longrightarrow> (of_char (digit_char d) :: nat) = 48 + d"
  by (simp add: digit_char_def)

lemma isdigit_digit_char: "d < 10 \<Longrightarrow> isdigit (digit_char d)"
  by (simp add: isdigit_def of_char_digit_char)

lemma str_nat_all_digits: "list_all isdigit (str_nat n)"
proof (induction n rule: str_nat.induct)
  case (1 n)
  show ?case
  proof (cases "n < 10")
    case True
    then show ?thesis by (simp add: str_nat.simps [of n] isdigit_digit_char)
  next
    case False
    with "1" have "list_all isdigit (str_nat (n div 10))" by simp
    moreover have "isdigit (digit_char (n mod 10))" by (simp add: isdigit_digit_char)
    ultimately show ?thesis using False by (simp add: str_nat.simps [of n])
  qed
qed

lemma length_str_nat: "0 < k \<Longrightarrow> n < 10 ^ k \<Longrightarrow> length (str_nat n) \<le> k"
proof (induction n arbitrary: k rule: str_nat.induct)
  case (1 n)
  show ?case
  proof (cases "n < 10")
    case True
    with "1.prems" show ?thesis by (simp add: str_nat.simps [of n])
  next
    case False
    with "1.prems" obtain j where k: "k = Suc j" by (cases k) auto
    from False "1.prems" k have j: "0 < j" by (cases j) auto
    from "1.prems" k have "n div 10 < 10 ^ j" by (simp add: less_mult_imp_div_less mult.commute)
    with "1.IH" [OF False j] have "length (str_nat (n div 10)) \<le> j" by simp
    with False k show ?thesis by (simp add: str_nat.simps [of n])
  qed
qed

lemma int_of_str_snoc: "int_of_str (s @ [c]) = 10 * int_of_str s + (of_char c - 48)"
  by (simp add: int_of_str_def)

lemma int_of_str_str_nat: "int_of_str (str_nat n) = n"
proof (induction n rule: str_nat.induct)
  case (1 n)
  show ?case
  proof (cases "n < 10")
    case True
    then show ?thesis by (simp add: str_nat.simps [of n] int_of_str_def of_char_digit_char)
  next
    case False
    with "1" have "int_of_str (str_nat (n div 10)) = n div 10" by simp
    with False show ?thesis
      by (simp add: str_nat.simps [of n] int_of_str_snoc of_char_digit_char)
  qed
qed

lemma int_of_str_zeros: "int_of_str (replicate k CHR ''0'' @ s) = int_of_str s"
  by (induction k) (simp_all add: int_of_str_def)

lemma format_06d_length: "n < 1000000 \<Longrightarrow> length (format_06d n) = 6"
  using length_str_nat [of 6 n] by (simp add: format_06d_def)

lemma zeros_all_digits: "list_all isdigit (replicate k CHR ''0'')"
  by (induction k) (simp_all add: isdigit_def)

lemma format_06d_digits: "list_all isdigit (format_06d n)"
  by (simp add: format_06d_def str_nat_all_digits zeros_all_digits)

lemma format_06d_value: "int_of_str (format_06d n) = n"
  by (simp add: format_06d_def int_of_str_zeros int_of_str_str_nat)

section \<open>Helper facts about the views\<close>

subsection \<open>Keys of the session\<close>

lemma otp_key_inject: "otp_key a = otp_key b \<longleftrightarrow> a = b"
  by (simp add: otp_key_def)

lemma otp_key_not_access_key: "otp_key a \<noteq> access_key b" "otp_key a \<noteq> access_key b @ sfx"
  by (simp_all add: otp_key_def access_key_def)

lemma access_key_suffixes:
  "access_key a \<noteq> access_key a @ ''_email''"
  "access_key a \<noteq> access_key a @ ''_reason''"
  "access_key a @ ''_email'' \<noteq> access_key a @ ''_reason''"
  by (simp_all add: access_key_def)

subsection \<open>Stripping\<close>

lemma strip_unchanged:
  assumes "s \<noteq> []" and "\<not> isspace (hd s)" and "\<not> isspace (last s)"
  shows "strip s = s"
proof -
  from assms(2) have "dropWhile isspace s = s" by (simp add: dropWhile_eq_self_iff)
  moreover from assms(3) have "dropWhile isspace (rev s) = rev s"
    by (simp add: dropWhile_eq_self_iff hd_rev)
  ultimately show ?thesis by (simp add: strip_def)
qed

lemma isdigit_not_isspace: "isdigit c \<Longrightarrow> \<not> isspace c"
  by (auto simp: isdigit_def isspace_def)

lemma strip_digits:
  assumes "list_all isdigit s"
  shows "strip s = s"
proof (cases "s = []")
  case True
  then show ?thesis by (simp add: strip_def)
next
  case False
  with assms have "isdigit (hd s)" and "isdigit (last s)"
    by (simp_all add: list_all_iff)
  with False show ?thesis by (simp add: strip_unchanged isdigit_not_isspace)
qed

lemma strip_format_06d: "strip (format_06d n) = format_06d n"
  by (rule strip_digits) (rule format_06d_digits)

lemma format_06d_not_empty: "format_06d n \<noteq> []"
  by (simp add: format_06d_def str_nat.simps [of n])

subsection \<open>The profile found\<close>

lemma get_object_or_404_national_id:
  "get_object_or_404 ps nid = Inr profile \<Longrightarrow> national_id profile = nid"
  by (auto simp: get_object_or_404_def find_Some_iff split: option.splits)

subsection \<open>The branches of the view\<close>

lemma doctor_access_send:
  assumes "get_object_or_404 (profiles w) nid = Inr profile"
    and "http_method req = ''POST''" and "POST req ''action'' = Some ''send_otp''"
    and "session req (otp_key nid) = Some (SDict p)"
  shows "doctor_access cfg env w req nid =
    send_otp cfg env w req profile
      \<lparr>otp_pending = True, email_value = email p, otp_info = None, error = None\<rparr>"
  using assms get_object_or_404_national_id [OF assms(1)]
  by (simp add: doctor_access_def)

lemma doctor_access_send_first:
  assumes "get_object_or_404 (profiles w) nid = Inr profile"
    and "http_method req = ''POST''" and "POST req ''action'' = Some ''send_otp''"
    and "\<not> truthy (session req (otp_key nid))"
  shows "doctor_access cfg env w req nid =
    send_otp cfg env w req profile
      \<lparr>otp_pending = False, email_value = [], otp_info = None, error = None\<rparr>"
  using assms get_object_or_404_national_id [OF assms(1)]
  by (simp add: doctor_access_def)

lemma doctor_access_verify:
  assumes "get_object_or_404 (profiles w) nid = Inr profile"
    and "http_method req = ''POST''" and "POST req ''action'' = Some ''verify_otp''"
    and "session req (otp_key nid) = Some (SDict p)"
  shows "doctor_access cfg env w req nid =
    verify_otp cfg env w req profile
      \<lparr>otp_pending = True, email_value = email p, otp_info = None, error = None\<rparr>"
  using assms get_object_or_404_national_id [OF assms(1)]
  by (simp add: doctor_access_def)

lemma verify_no_challenge:
  assumes "get_object_or_404 (profiles w) nid = Inr profile"
    and "http_method req = ''POST''" and "POST req ''action'' = Some ''verify_otp''"
    and "\<not> truthy (session req (otp_key nid))"
  shows "doctor_access cfg env w req nid =
    Inr (Render \<lparr>otp_pending = False, email_value = [], otp_info = None,
                 error = Some ''Request an OTP first by entering your email.''\<rparr> 400,
         session req, w)"
  using assms get_object_or_404_national_id [OF assms(1)]
  by (simp add: doctor_access_def verify_otp_def)

lemma verify_expired:
  assumes "get_object_or_404 (profiles w) nid = Inr profile"
    and "http_method req = ''POST''" and "POST req ''action'' = Some ''verify_otp''"
    and "session req (otp_key nid) = Some (SDict p)"
    and "expires_at p < now env"
  shows "doctor_access cfg env w req nid =
    Inr (Render \<lparr>otp_pending = False, email_value = [], otp_info = None,
                 error = Some ''The OTP has expired. Please request a new one.''\<rparr> 400,
         (session req)(otp_key nid := None), w)"
  using assms(4,5) get_object_or_404_national_id [OF assms(1)]
  by (simp add: doctor_access_verify [OF assms(1-4)] verify_otp_def Let_def)

lemma verify_too_many:
  assumes "get_object_or_404 (profiles w) nid = Inr profile"
    and "http_method req = ''POST''" and "POST req ''action'' = Some ''verify_otp''"
    and "session req (otp_key nid) = Some (SDict p)"
    and "now env \<le> expires_at p"
    and "getattr (OTP_MAX_ATTEMPTS cfg) 5 \<le> attempts p"
  shows "doctor_access cfg env w req nid =
    Inr (Render \<lparr>otp_pending = True, email_value = email p, otp_info = None,
                 error = Some ''Too many attempts. Please request a new OTP.''\<rparr> 429,
         session req, w)"
  using assms(4-) get_object_or_404_national_id [OF assms(1)]
  by (simp add: doctor_access_verify [OF assms(1-4)] verify_otp_def Let_def)

lemma verify_reason_required:
  assumes "get_object_or_404 (profiles w) nid = Inr profile"
    and "http_method req = ''POST''" and "POST req ''action'' = Some ''verify_otp''"
    and "session req (otp_key nid) = Some (SDict p)"
    and "now env \<le> expires_at p"
    and "attempts p < getattr (OTP_MAX_ATTEMPTS cfg) 5"
    and "reason_input req = []"
  shows "doctor_access cfg env w req nid =
    Inr (Render \<lparr>otp_pending = True, email_value = email p, otp_info = None,
                 error = Some ''Reason for access is required.''\<rparr> 400,
         session req, w)"
  using assms(4-) get_object_or_404_national_id [OF assms(1)]
  by (simp add: doctor_access_verify [OF assms(1-4)] verify_otp_def Let_def)

lemma verify_match:
  assumes "get_object_or_404 (profiles w) nid = Inr profile"
    and "http_method req = ''POST''" and "POST req ''action'' = Some ''verify_otp''"
    and "session req (otp_key nid) = Some (SDict p)"
    and "now env \<le> expires_at p"
    and "attempts p < getattr (OTP_MAX_ATTEMPTS cfg) 5"
    and "reason_input req \<noteq> []"
    and "code p \<noteq> []" and "code_input req = code p"
  shows "doctor_access cfg env w req nid =
    Inr (Redirect ''doctor_profile'' nid,
         ((session req)
            (access_key nid \<mapsto> SBool True,
             access_key nid @ ''_email'' \<mapsto> SStr (email p),
             access_key nid @ ''_reason'' \<mapsto> SStr (reason_input req)))
            (otp_key nid := None),
         w)"
  using assms(4-) get_object_or_404_national_id [OF assms(1)]
  by (simp add: doctor_access_verify [OF assms(1-4)] verify_otp_def Let_def)

lemma verify_mismatch:
  assumes "get_object_or_404 (profiles w) nid = Inr profile"
    and "http_method req = ''POST''" and "POST req ''action'' = Some ''verify_otp''"
    and "session req (otp_key nid) = Some (SDict p)"
    and "now env \<le> expires_at p"
    and "attempts p < getattr (OTP_MAX_ATTEMPTS cfg) 5"
    and "reason_input req \<noteq> []"
    and "code_input req \<noteq> code p"
  shows "doctor_access cfg env w req nid =
    Inr (Render \<lparr>otp_pending = True, email_value = email p, otp_info = None,
                 error = Some ''Invalid code. Please try again.''\<rparr> 401,
         (session req)(otp_key nid \<mapsto> SDict (p\<lparr>attempts := attempts p + 1\<rparr>)), w)"
  using assms(4-) get_object_or_404_national_id [OF assms(1)]
  by (simp add: doctor_access_verify [OF assms(1-4)] verify_otp_def Let_def)

section \<open>The issued code\<close>

lemma send_otp_stored:
  assumes "send_otp cfg env w req profile ctx0 = Inr (Render ctx 200, s', w')"
  shows "\<exists>p. s' (otp_key (national_id profile)) = Some (SDict p)
           \<and> code p = format_06d (randbelow env 1000000)"
  using assms
  by (auto simp: send_otp_def Let_def split: if_splits mail_outcome.splits)

text \<open>
  Claim C8. Whenever the \<^verbatim>\<open>send_otp\<close> action of \<^verbatim>\<open>doctor_access\<close> issues a challenge (it answers
  with status 200) and the random source kept its contract (a draw below 1000000), the code
  stored in the session is the draw formatted with \<^verbatim>\<open>06d\<close>: exactly six characters, all of
  them decimal digits, denoting the drawn integer, which lies in 0..999999. Leading zeros
  are kept: the draw 42 is stored as 000042.
\<close>

theorem issued_code_six_digits:
  assumes "randbelow env 1000000 < 1000000"
    and "http_method req = ''POST''" and "POST req ''action'' = Some ''send_otp''"
    and "doctor_access cfg env w req nid = Inr (Render ctx 200, s', w')"
  shows "(\<exists>p. s' (otp_key nid) = Some (SDict p)
            \<and> code p = format_06d (randbelow env 1000000)
            \<and> length (code p) = 6 \<and> list_all isdigit (code p)
            \<and> int_of_str (code p) = randbelow env 1000000 \<and> int_of_str (code p) \<le> 999999)
         \<and> format_06d 42 = ''000042''"
proof -
  from assms(4) obtain profile where prof: "get_object_or_404 (profiles w) nid = Inr profile"
    by (cases "get_object_or_404 (profiles w) nid") (simp_all add: doctor_access_def)
  then have nid: "national_id profile = nid" by (rule get_object_or_404_national_id)
  from assms(2-4) prof obtain ctx0
    where "send_otp cfg env w req profile ctx0 = Inr (Render ctx 200, s', w')"
    by (auto simp: doctor_access_def Let_def split: option.splits if_splits)
  then obtain p where p: "s' (otp_key nid) = Some (SDict p)"
      "code p = format_06d (randbelow env 1000000)"
    using send_otp_stored nid by blast
  from assms(1) have "length (format_06d (randbelow env 1000000)) = 6"
    by (rule format_06d_length)
  moreover have "list_all isdigit (format_06d (randbelow env 1000000))"
    by (rule format_06d_digits)
  moreover have "int_of_str (format_06d (randbelow env 1000000)) = randbelow env 1000000"
    by (rule format_06d_value)
  moreover have "format_06d 42 = ''000042''" by code_simp
  ultimately show ?thesis using p assms(1) by auto
qed

lemma example_lookup:
  "get_object_or_404 (profiles example_world) ''12345678'' = Inr example_profile"
  by (simp add: get_object_or_404_def example_world_def example_profile_def)

lemma example_issue:
  "doctor_access project_settings (example_env 0 Delivered) example_world
     (send_request ''nurse@example.com'' Map.empty) ''12345678'' =
   Inr (Render \<lparr>otp_pending = True, email_value = ''nurse@example.com'', otp_info =
           Some ''An OTP has been sent to nurse@example.com. Please enter it below.'',
           error = None\<rparr> 200,
        [otp_key ''12345678'' \<mapsto> SDict (example_challenge 0)],
        example_world\<lparr>outbox := [\<lparr>subject = ''Your One-Time Access Code'',
           message = Otp_message ''Jane Doe'' ''12345678'' ''000042'' 5,
           from_email = None, recipient_list = [''nurse@example.com'']\<rparr>]\<rparr>)"
proof -
  have f: "format_06d 42 = ''000042''" by code_simp
  have s: "strip ''nurse@example.com'' = ''nurse@example.com''"
    by (simp add: strip_def isspace_def)
  show ?thesis
    by (simp add: doctor_access_def get_object_or_404_def otp_key_def send_request_def example_env_def send_otp_def
        post_or_empty_def s f Let_def project_settings_def getattr_def timedelta_minutes_def
        example_profile_def example_world_def example_challenge_def)
qed

theorem issued_code_six_digits_witness:
  "\<exists>p. [otp_key ''12345678'' \<mapsto> SDict (example_challenge 0)] (otp_key ''12345678'') = Some (SDict p)
      \<and> code p = ''000042'' \<and> length (code p) = 6 \<and> list_all isdigit (code p)
      \<and> int_of_str (code p) = 42"
proof -
  have h1: "randbelow (example_env 0 Delivered) 1000000 < 1000000"
    by (simp add: example_env_def)
  have h2: "http_method (send_request ''nurse@example.com'' Map.empty) = ''POST''"
    by (simp add: send_request_def)
  have h3: "POST (send_request ''nurse@example.com'' Map.empty) ''action'' = Some ''send_otp''"
    by (simp add: send_request_def)
  have r: "randbelow (example_env 0 Delivered) 1000000 = 42"
    by (simp add: example_env_def)
  from issued_code_six_digits [OF h1 h2 h3 example_issue]
  show ?thesis unfolding r by auto
qed

section \<open>The order of the checks of a verification\<close>

subsection \<open>Evaluating the example requests\<close>

lemma verify_request_fields:
  "http_method (verify_request c r s) = ''POST''"
  "POST (verify_request c r s) ''action'' = Some ''verify_otp''"
  "session (verify_request c r s) = s"
  "post_or_empty (verify_request c r s) ''access_code'' = c"
  "post_or_empty (verify_request c r s) ''reason'' = r"
  by (simp_all add: verify_request_def post_or_empty_def)

lemma example_inputs_stripped:
  "code_input (verify_request ''000042'' r s) = ''000042''"
  "code_input (verify_request ''123456'' r s) = ''123456''"
  "reason_input (verify_request c ''routine check'' s) = ''routine check''"
  "reason_input (verify_request c [] s) = []"
  by (simp_all add: code_input_def reason_input_def verify_request_fields strip_def isspace_def)

lemma example_challenge_fields:
  "email (example_challenge n) = ''nurse@example.com''"
  "code (example_challenge n) = ''000042''"
  "expires_at (example_challenge n) = 300000000"
  "attempts (example_challenge n) = n"
  "(example_challenge n)\<lparr>attempts := m\<rparr> = example_challenge m"
  by (simp_all add: example_challenge_def)

lemma example_env_fields:
  "now (example_env t outcome) = t"
  "send_mail_outcome (example_env t outcome) = outcome"
  "randbelow (example_env t outcome) k = 42"
  "create_outcome (example_env t outcome) = Some t"
  "save_ok (example_env t outcome)"
  by (simp_all add: example_env_def)

lemma default_max_attempts: "getattr (OTP_MAX_ATTEMPTS project_settings) 5 = 5"
  by (simp add: project_settings_def getattr_def)

text \<open>
  Claim C3. A \<^verbatim>\<open>verify_otp\<close> request for an existing profile runs its checks in this order,
  each with the stated effect on the session and nothing else changed:
  (1) no pending challenge: status 400, "Request an OTP first ..." (NoChallengeError);
  (2) a pending challenge with \<open>now > expires_at\<close>, whatever its counter, the reason and
      the code: the challenge is deleted, status 400, "The OTP has expired ..." (ExpiredError);
  (3) not expired and \<open>attempts \<ge> max_attempts\<close>, whatever the reason and the code:
      status 429, "Too many attempts ..." (TooManyAttemptsError), session unchanged;
  (4) the former checks passed and the reason is empty, whatever the code: status 400,
      "Reason for access is required." (ReasonRequiredError), session unchanged;
  (5) only then the submitted code is compared with the stored one (a stored code is
      never empty): equal strings delete the challenge, store the grant with the
      challenge's email and the reason, and redirect to the doctor view; different strings
      store the challenge with \<open>attempts + 1\<close> and answer 401, "Invalid code ..."
      (InvalidCodeError).
  The submitted code and the reason are the form fields after \<^verbatim>\<open>strip()\<close>.
\<close>

theorem verify_check_order:
  assumes "get_object_or_404 (profiles w) nid = Inr profile"
    and "http_method req = ''POST''" and "POST req ''action'' = Some ''verify_otp''"
  shows
    "(\<not> truthy (session req (otp_key nid)) \<longrightarrow>
        doctor_access cfg env w req nid =
          Inr (Render \<lparr>otp_pending = False, email_value = [], otp_info = None,
                 error = Some ''Request an OTP first by entering your email.''\<rparr> 400,
               session req, w))
     \<and> (session req (otp_key nid) = Some (SDict p) \<and> expires_at p < now env \<longrightarrow>
        doctor_access cfg env w req nid =
          Inr (Render \<lparr>otp_pending = False, email_value = [], otp_info = None,
                 error = Some ''The OTP has expired. Please request a new one.''\<rparr> 400,
               (session req)(otp_key nid := None), w))
     \<and> (session req (otp_key nid) = Some (SDict p) \<and> now env \<le> expires_at p
          \<and> getattr (OTP_MAX_ATTEMPTS cfg) 5 \<le> attempts p \<longrightarrow>
        doctor_access cfg env w req nid =
          Inr (Render \<lparr>otp_pending = True, email_value = email p, otp_info = None,
                 error = Some ''Too many attempts. Please request a new OTP.''\<rparr> 429,
               session req, w))
     \<and> (session req (otp_key nid) = Some (SDict p) \<and> now env \<le> expires_at p
          \<and> attempts p < getattr (OTP_MAX_ATTEMPTS cfg) 5 \<and> reason_input req = [] \<longrightarrow>
        doctor_access cfg env w req nid =
          Inr (Render \<lparr>otp_pending = True, email_value = email p, otp_info = None,
                 error = Some ''Reason for access is required.''\<rparr> 400,
               session req, w))
     \<and> (session req (otp_key nid) = Some (SDict p) \<and> now env \<le> expires_at p
          \<and> attempts p < getattr (OTP_MAX_ATTEMPTS cfg) 5 \<and> reason_input req \<noteq> []
          \<and> code p \<noteq> [] \<and> code_input req = code p \<longrightarrow>
        doctor_access cfg env w req nid =
          Inr (Redirect ''doctor_profile'' nid,
               ((session req)
                  (access_key nid \<mapsto> SBool True,
                   access_key nid @ ''_email'' \<mapsto> SStr (email p),
                   access_key nid @ ''_reason'' \<mapsto> SStr (reason_input req)))
                  (otp_key nid := None),
               w))
     \<and> (session req (otp_key nid) = Some (SDict p) \<and> now env \<le> expires_at p
          \<and> attempts p < getattr (OTP_MAX_ATTEMPTS cfg) 5 \<and> reason_input req \<noteq> []
          \<and> code_input req \<noteq> code p \<longrightarrow>
        doctor_access cfg env w req nid =
          Inr (Render \<lparr>otp_pending = True, email_value = email p, otp_info = None,
                 error = Some ''Invalid code. Please try again.''\<rparr> 401,
               (session req)(otp_key nid \<mapsto> SDict (p\<lparr>attempts := attempts p + 1\<rparr>)), w))"
  using verify_no_challenge [OF assms] verify_expired [OF assms] verify_too_many [OF assms]
    verify_reason_required [OF assms] verify_match [OF assms] verify_mismatch [OF assms]
  by blast

theorem verify_check_order_witness:
  "doctor_access project_settings (example_env 0 Delivered) example_world
      (verify_request ''000042'' ''routine check'' Map.empty) ''12345678'' =
     Inr (Render \<lparr>otp_pending = False, email_value = [], otp_info = None,
            error = Some ''Request an OTP first by entering your email.''\<rparr> 400,
          Map.empty, example_world)
   \<and> doctor_access project_settings (example_env 300000001 Delivered) example_world
      (verify_request ''000042'' ''routine check''
         [otp_key ''12345678'' \<mapsto> SDict (example_challenge 5)]) ''12345678'' =
     Inr (Render \<lparr>otp_pending = False, email_value = [], otp_info = None,
            error = Some ''The OTP has expired. Please request a new one.''\<rparr> 400,
          [otp_key ''12345678'' \<mapsto> SDict (example_challenge 5)](otp_key ''12345678'' := None),
          example_world)
   \<and> doctor_access project_settings (example_env 0 Delivered) example_world
      (verify_request ''000042'' []
         [otp_key ''12345678'' \<mapsto> SDict (example_challenge 5)]) ''12345678'' =
     Inr (Render \<lparr>otp_pending = True, email_value = ''nurse@example.com'', otp_info = None,
            error = Some ''Too many attempts. Please request a new OTP.''\<rparr> 429,
          [otp_key ''12345678'' \<mapsto> SDict (example_challenge 5)], example_world)
   \<and> doctor_access project_settings (example_env 0 Delivered) example_world
      (verify_request ''000042'' []
         [otp_key ''12345678'' \<mapsto> SDict (example_challenge 0)]) ''12345678'' =
     Inr (Render \<lparr>otp_pending = True, email_value = ''nurse@example.com'', otp_info = None,
            error = Some ''Reason for access is required.''\<rparr> 400,
          [otp_key ''12345678'' \<mapsto> SDict (example_challenge 0)], example_world)
   \<and> doctor_access project_settings (example_env 0 Delivered) example_world
      (verify_request ''000042'' ''routine check''
         [otp_key ''12345678'' \<mapsto> SDict (example_challenge 0)]) ''12345678'' =
     Inr (Redirect ''doctor_profile'' ''12345678'',
          ([otp_key ''12345678'' \<mapsto> SDict (example_challenge 0)]
             (access_key ''12345678'' \<mapsto> SBool True,
              access_key ''12345678'' @ ''_email'' \<mapsto> SStr ''nurse@example.com'',
              access_key ''12345678'' @ ''_reason'' \<mapsto> SStr ''routine check''))
             (otp_key ''12345678'' := None),
          example_world)
   \<and> doctor_access project_settings (example_env 0 Delivered) example_world
      (verify_request ''123456'' ''routine check''
         [otp_key ''12345678'' \<mapsto> SDict (example_challenge 0)]) ''12345678'' =
     Inr (Render \<lparr>otp_pending = True, email_value = ''nurse@example.com'', otp_info = None,
            error = Some ''Invalid code. Please try again.''\<rparr> 401,
          [otp_key ''12345678'' \<mapsto> SDict (example_challenge 0)]
            (otp_key ''12345678'' \<mapsto> SDict (example_challenge 1)),
          example_world)"
proof -
  note order = verify_check_order [where w = example_world and nid = "''12345678''"
      and profile = example_profile and cfg = project_settings, OF example_lookup]
  have "\<not> truthy (session (verify_request ''000042'' ''routine check'' Map.empty)
            (otp_key ''12345678''))"
    by (simp add: verify_request_fields)
  with order [where req = "verify_request ''000042'' ''routine check'' Map.empty"
      and env = "example_env 0 Delivered", OF verify_request_fields(1,2)]
  have b1: "doctor_access project_settings (example_env 0 Delivered) example_world
      (verify_request ''000042'' ''routine check'' Map.empty) ''12345678'' =
     Inr (Render \<lparr>otp_pending = False, email_value = [], otp_info = None,
            error = Some ''Request an OTP first by entering your email.''\<rparr> 400,
          Map.empty, example_world)"
    by (simp add: verify_request_fields)
  show ?thesis
    using b1
      order [where req = "verify_request ''000042'' ''routine check'' [otp_key ''12345678'' \<mapsto> SDict (example_challenge 5)]"
        and p = "example_challenge 5" and env = "example_env 300000001 Delivered", OF verify_request_fields(1,2)]
      order [where req = "verify_request ''000042'' [] [otp_key ''12345678'' \<mapsto> SDict (example_challenge 5)]"
        and p = "example_challenge 5" and env = "example_env 0 Delivered", OF verify_request_fields(1,2)]
      order [where req = "verify_request ''000042'' [] [otp_key ''12345678'' \<mapsto> SDict (example_challenge 0)]"
        and p = "example_challenge 0" and env = "example_env 0 Delivered", OF verify_request_fields(1,2)]
      order [where req = "verify_request ''000042'' ''routine check'' [otp_key ''12345678'' \<mapsto> SDict (example_challenge 0)]"
        and p = "example_challenge 0" and env = "example_env 0 Delivered", OF verify_request_fields(1,2)]
      order [where req = "verify_request ''123456'' ''routine check'' [otp_key ''12345678'' \<mapsto> SDict (example_challenge 0)]"
        and p = "example_challenge 0" and env = "example_env 0 Delivered", OF verify_request_fields(1,2)]
    by (simp add: verify_request_fields example_inputs_stripped example_challenge_fields
        example_env_fields default_max_attempts)
qed

section \<open>Exhausted attempts, expiry, missing reason\<close>

text \<open>
  Claim C5. A pending challenge that has not expired and whose counter has reached
  \<open>max_attempts\<close> (setting \<^verbatim>\<open>OTP_MAX_ATTEMPTS\<close>, default 5) answers every \<^verbatim>\<open>verify_otp\<close>
  request, whatever code and reason it carries (also the stored code with a reason), with
  status 429 and "Too many attempts. Please request a new OTP." (TooManyAttemptsError).
  The session is returned as it was: the challenge stays pending and its counter is not
  changed, so the next request meets the same answer until the challenge expires or
  \<^verbatim>\<open>send_otp\<close> replaces it.
\<close>

theorem verify_locked_after_max_attempts:
  assumes "get_object_or_404 (profiles w) nid = Inr profile"
    and "http_method req = ''POST''" and "POST req ''action'' = Some ''verify_otp''"
    and "session req (otp_key nid) = Some (SDict p)"
    and "now env \<le> expires_at p"
    and "getattr (OTP_MAX_ATTEMPTS cfg) 5 \<le> attempts p"
  shows "doctor_access cfg env w req nid =
           Inr (Render \<lparr>otp_pending = True, email_value = email p, otp_info = None,
                  error = Some ''Too many attempts. Please request a new OTP.''\<rparr> 429,
                session req, w)
         \<and> getattr (OTP_MAX_ATTEMPTS project_settings) 5 = 5"
  using verify_too_many [OF assms] default_max_attempts by simp

theorem verify_locked_after_max_attempts_witness:
  "doctor_access project_settings (example_env 0 Delivered) example_world
      (verify_request ''000042'' ''routine check''
         [otp_key ''12345678'' \<mapsto> SDict (example_challenge 5)]) ''12345678'' =
     Inr (Render \<lparr>otp_pending = True, email_value = ''nurse@example.com'', otp_info = None,
            error = Some ''Too many attempts. Please request a new OTP.''\<rparr> 429,
          [otp_key ''12345678'' \<mapsto> SDict (example_challenge 5)], example_world)
   \<and> code_input (verify_request ''000042'' ''routine check''
         [otp_key ''12345678'' \<mapsto> SDict (example_challenge 5)]) = code (example_challenge 5)"
proof -
  let ?s = "[otp_key ''12345678'' \<mapsto> SDict (example_challenge 5)]"
  let ?req = "verify_request ''000042'' ''routine check'' ?s"
  have h4: "session ?req (otp_key ''12345678'') = Some (SDict (example_challenge 5))"
    by (simp add: verify_request_fields)
  have h5: "now (example_env 0 Delivered) \<le> expires_at (example_challenge 5)"
    by (simp add: example_env_fields example_challenge_fields)
  have h6: "getattr (OTP_MAX_ATTEMPTS project_settings) 5 \<le> attempts (example_challenge 5)"
    by (simp add: default_max_attempts example_challenge_fields)
  from verify_locked_after_max_attempts [OF example_lookup verify_request_fields(1,2) h4 h5 h6]
  show ?thesis
    by (simp add: verify_request_fields example_challenge_fields example_inputs_stripped)
qed

text \<open>
  Claim C6. For a pending challenge, a \<^verbatim>\<open>verify_otp\<close> request at any time strictly after
  \<open>expires_at\<close> (one second after it, for one) deletes the challenge from the session and
  answers 400 with "The OTP has expired. Please request a new one." (ExpiredError); the
  session then holds no challenge for the profile, so the next verification is refused
  for want of one. A request one second before \<open>expires_at\<close> that carries the stored code
  and a reason, with the counter below \<open>max_attempts\<close>, succeeds: the grant is stored and
  the response redirects to the doctor view.
\<close>

theorem verify_expiry_boundary:
  assumes "get_object_or_404 (profiles w) nid = Inr profile"
    and "http_method req = ''POST''" and "POST req ''action'' = Some ''verify_otp''"
    and "session req (otp_key nid) = Some (SDict p)"
  shows "(expires_at p < now env \<or> now env = expires_at p + timedelta_seconds 1 \<longrightarrow>
            doctor_access cfg env w req nid =
              Inr (Render \<lparr>otp_pending = False, email_value = [], otp_info = None,
                     error = Some ''The OTP has expired. Please request a new one.''\<rparr> 400,
                   (session req)(otp_key nid := None), w)
            \<and> ((session req)(otp_key nid := None)) (otp_key nid) = None
            \<and> \<not> truthy (((session req)(otp_key nid := None)) (otp_key nid)))
         \<and> (now env = expires_at p - timedelta_seconds 1
              \<and> attempts p < getattr (OTP_MAX_ATTEMPTS cfg) 5 \<and> reason_input req \<noteq> []
              \<and> code p \<noteq> [] \<and> code_input req = code p \<longrightarrow>
            doctor_access cfg env w req nid =
              Inr (Redirect ''doctor_profile'' nid,
                   ((session req)
                      (access_key nid \<mapsto> SBool True,
                       access_key nid @ ''_email'' \<mapsto> SStr (email p),
                       access_key nid @ ''_reason'' \<mapsto> SStr (reason_input req)))
                      (otp_key nid := None),
                   w))"
proof -
  have "expires_at p < now env" if "now env = expires_at p + timedelta_seconds 1"
    using that by (simp add: timedelta_seconds_def)
  moreover have "now env \<le> expires_at p" if "now env = expires_at p - timedelta_seconds 1"
    using that by (simp add: timedelta_seconds_def)
  ultimately show ?thesis
    using verify_expired [OF assms, of env cfg] verify_match [OF assms, of env cfg]
    by auto
qed

theorem verify_expiry_boundary_witness:
  "doctor_access project_settings (example_env 301000000 Delivered) example_world
      (verify_request ''000042'' ''routine check''
         [otp_key ''12345678'' \<mapsto> SDict (example_challenge 0)]) ''12345678'' =
     Inr (Render \<lparr>otp_pending = False, email_value = [], otp_info = None,
            error = Some ''The OTP has expired. Please request a new one.''\<rparr> 400,
          [otp_key ''12345678'' \<mapsto> SDict (example_challenge 0)](otp_key ''12345678'' := None),
          example_world)
   \<and> doctor_access project_settings (example_env 299000000 Delivered) example_world
      (verify_request ''000042'' ''routine check''
         [otp_key ''12345678'' \<mapsto> SDict (example_challenge 0)]) ''12345678'' =
     Inr (Redirect ''doctor_profile'' ''12345678'',
          ([otp_key ''12345678'' \<mapsto> SDict (example_challenge 0)]
             (access_key ''12345678'' \<mapsto> SBool True,
              access_key ''12345678'' @ ''_email'' \<mapsto> SStr ''nurse@example.com'',
              access_key ''12345678'' @ ''_reason'' \<mapsto> SStr ''routine check''))
             (otp_key ''12345678'' := None),
          example_world)"
proof -
  let ?s = "[otp_key ''12345678'' \<mapsto> SDict (example_challenge 0)]"
  let ?req = "verify_request ''000042'' ''routine check'' ?s"
  have h4: "session ?req (otp_key ''12345678'') = Some (SDict (example_challenge 0))"
    by (simp add: verify_request_fields)
  note boundary = verify_expiry_boundary [where cfg = project_settings,
      OF example_lookup verify_request_fields(1,2) h4]
  show ?thesis
    using boundary [where env = "example_env 301000000 Delivered"]
      boundary [where env = "example_env 299000000 Delivered"]
    by (simp add: verify_request_fields example_challenge_fields example_inputs_stripped
        example_env_fields default_max_attempts timedelta_seconds_def)
qed

text \<open>
  Claim C7. For a pending challenge, a \<^verbatim>\<open>verify_otp\<close> request whose reason is empty
  (after \<^verbatim>\<open>strip()\<close>) never increments the counter, whatever code it carries: the request
  returns a response, and the session it leaves either equals the one it met or differs
  only in that the (expired) challenge is deleted. When the challenge has not expired
  and its counter is below \<open>max_attempts\<close>, the answer is status 400 with
  "Reason for access is required." (ReasonRequiredError) and the session is unchanged.
\<close>

theorem verify_empty_reason_keeps_attempts:
  assumes "get_object_or_404 (profiles w) nid = Inr profile"
    and "http_method req = ''POST''" and "POST req ''action'' = Some ''verify_otp''"
    and "session req (otp_key nid) = Some (SDict p)"
    and "reason_input req = []"
  shows "(now env \<le> expires_at p \<and> attempts p < getattr (OTP_MAX_ATTEMPTS cfg) 5 \<longrightarrow>
            doctor_access cfg env w req nid =
              Inr (Render \<lparr>otp_pending = True, email_value = email p, otp_info = None,
                     error = Some ''Reason for access is required.''\<rparr> 400,
                   session req, w))
         \<and> (\<exists>ctx status s'.
               doctor_access cfg env w req nid = Inr (Render ctx status, s', w)
               \<and> (s' = session req \<or> s' = (session req)(otp_key nid := None))
               \<and> s' (otp_key nid) \<noteq> Some (SDict (p\<lparr>attempts := attempts p + 1\<rparr>)))"
proof -
  have a: "Some (SDict p) \<noteq> Some (SDict (p\<lparr>attempts := attempts p + 1\<rparr>))"
  proof
    assume "Some (SDict p) = Some (SDict (p\<lparr>attempts := attempts p + 1\<rparr>))"
    then have "attempts p = attempts (p\<lparr>attempts := attempts p + 1\<rparr>)" by simp
    then show False by simp
  qed
  consider (expired) "expires_at p < now env"
    | (locked) "now env \<le> expires_at p" "getattr (OTP_MAX_ATTEMPTS cfg) 5 \<le> attempts p"
    | (checked) "now env \<le> expires_at p" "attempts p < getattr (OTP_MAX_ATTEMPTS cfg) 5"
    by linarith
  then show ?thesis
  proof cases
    case expired
    with verify_expired [OF assms(1-4) expired, of cfg] show ?thesis by simp
  next
    case locked
    with verify_too_many [OF assms(1-4) locked] assms(4) a show ?thesis by simp
  next
    case checked
    with verify_reason_required [OF assms(1-4) checked assms(5)] assms(4) a
    show ?thesis by simp
  qed
qed

theorem verify_empty_reason_keeps_attempts_witness:
  "doctor_access project_settings (example_env 0 Delivered) example_world
      (verify_request ''000042'' []
         [otp_key ''12345678'' \<mapsto> SDict (example_challenge 0)]) ''12345678'' =
     Inr (Render \<lparr>otp_pending = True, email_value = ''nurse@example.com'', otp_info = None,
            error = Some ''Reason for access is required.''\<rparr> 400,
          [otp_key ''12345678'' \<mapsto> SDict (example_challenge 0)], example_world)
   \<and> doctor_access project_settings (example_env 0 Delivered) example_world
      (verify_request ''123456'' []
         [otp_key ''12345678'' \<mapsto> SDict (example_challenge 0)]) ''12345678'' =
     Inr (Render \<lparr>otp_pending = True, email_value = ''nurse@example.com'', otp_info = None,
            error = Some ''Reason for access is required.''\<rparr> 400,
          [otp_key ''12345678'' \<mapsto> SDict (example_challenge 0)], example_world)"
proof -
  let ?s = "[otp_key ''12345678'' \<mapsto> SDict (example_challenge 0)]"
  have h4: "session (verify_request c [] ?s) (otp_key ''12345678'') =
      Some (SDict (example_challenge 0))" for c
    by (simp add: verify_request_fields)
  have h5: "reason_input (verify_request c [] ?s) = []" for c
    by (simp add: example_inputs_stripped)
  note keeps = verify_empty_reason_keeps_attempts [where cfg = project_settings
      and env = "example_env 0 Delivered", OF example_lookup verify_request_fields(1,2) h4 h5]
  show ?thesis
    using keeps [of "''000042''"] keeps [of "''123456''"]
    by (simp add: verify_request_fields example_challenge_fields example_env_fields
        default_max_attempts)
qed

section \<open>Issue, then verify\<close>

lemma send_otp_issues:
  assumes "strip (post_or_empty req ''email'') \<noteq> []"
    and "CHR ''@'' \<in> set (strip (post_or_empty req ''email''))"
    and "send_mail_outcome env \<noteq> Raised"
  shows "send_otp cfg env w req profile ctx0 =
    Inr (Render (ctx0\<lparr>otp_pending := True, email_value := strip (post_or_empty req ''email''),
            otp_info := Some (''An OTP has been sent to '' @ strip (post_or_empty req ''email'')
               @ ''. Please enter it below.'')\<rparr>) 200,
         (session req)(otp_key (national_id profile) \<mapsto>
            SDict \<lparr>email = strip (post_or_empty req ''email''),
                   code = format_06d (randbelow env 1000000),
                   expires_at = now env + timedelta_minutes (getattr (OTP_TTL_MINUTES cfg) 5),
                   attempts = 0\<rparr>),
         w\<lparr>outbox := outbox w @
            [\<lparr>subject = ''Your One-Time Access Code'',
              message = Otp_message (full_name profile) (national_id profile)
                 (format_06d (randbelow env 1000000)) (getattr (OTP_TTL_MINUTES cfg) 5),
              from_email = DEFAULT_FROM_EMAIL cfg,
              recipient_list = [strip (post_or_empty req ''email'')]\<rparr>]\<rparr>)"
  using assms by (cases "send_mail_outcome env") (simp_all add: send_otp_def Let_def)

lemma doctor_access_issues:
  assumes "get_object_or_404 (profiles w) nid = Inr profile"
    and "http_method req = ''POST''" and "POST req ''action'' = Some ''send_otp''"
    and "session req (otp_key nid) = None \<or> (\<exists>p0. session req (otp_key nid) = Some (SDict p0))"
    and "strip (post_or_empty req ''email'') \<noteq> []"
    and "CHR ''@'' \<in> set (strip (post_or_empty req ''email''))"
    and "send_mail_outcome env \<noteq> Raised"
  shows "\<exists>ctx m. doctor_access cfg env w req nid =
    Inr (Render ctx 200,
         (session req)(otp_key nid \<mapsto>
            SDict \<lparr>email = strip (post_or_empty req ''email''),
                   code = format_06d (randbelow env 1000000),
                   expires_at = now env + timedelta_minutes (getattr (OTP_TTL_MINUTES cfg) 5),
                   attempts = 0\<rparr>),
         w\<lparr>outbox := outbox w @ [m]\<rparr>)
      \<and> recipient_list m = [strip (post_or_empty req ''email'')]"
proof -
  have nid: "national_id profile = nid"
    using assms(1) by (rule get_object_or_404_national_id)
  from assms(4) show ?thesis
  proof
    assume "session req (otp_key nid) = None"
    then have "\<not> truthy (session req (otp_key nid))" by simp
    from doctor_access_send_first [OF assms(1-3) this]
    have eq: "doctor_access cfg env w req nid = send_otp cfg env w req profile
        \<lparr>otp_pending = False, email_value = [], otp_info = None, error = None\<rparr>" .
    show ?thesis
      unfolding eq send_otp_issues [OF assms(5-7)] nid
      by (intro exI conjI) (rule refl, simp)
  next
    assume "\<exists>p0. session req (otp_key nid) = Some (SDict p0)"
    then obtain p0 where "session req (otp_key nid) = Some (SDict p0)" ..
    from doctor_access_send [OF assms(1-3) this]
    have eq: "doctor_access cfg env w req nid = send_otp cfg env w req profile
        \<lparr>otp_pending = True, email_value = email p0, otp_info = None, error = None\<rparr>" .
    show ?thesis
      unfolding eq send_otp_issues [OF assms(5-7)] nid
      by (intro exI conjI) (rule refl, simp)
  qed
qed

lemma request_session_update:
  "http_method (req\<lparr>session := s\<rparr>) = http_method req"
  "POST (req\<lparr>session := s\<rparr>) = POST req"
  "session (req\<lparr>session := s\<rparr>) = s"
  "post_or_empty (req\<lparr>session := s\<rparr>) name = post_or_empty req name"
  "code_input (req\<lparr>session := s\<rparr>) = code_input req"
  "reason_input (req\<lparr>session := s\<rparr>) = reason_input req"
  by (simp_all add: code_input_def reason_input_def post_or_empty_def)

text \<open>
  What the view does when the mail call of the issue returns (delivered, or failed in
  silence): for an existing profile and an email that passes the test of \<^verbatim>\<open>send_otp\<close>, the
  request issues a challenge, and a following \<^verbatim>\<open>verify_otp\<close> request in the session it left,
  carrying exactly the issued code and a non-empty reason, at a time within the TTL and
  with \<open>max_attempts\<close> above the fresh counter 0, redirects to the doctor view, deletes
  the challenge and stores the grant. The same verification submitted once more finds no
  challenge. The hypothesis on the mail call does not hold for every such email: see the
  last section.
\<close>

lemma issue_then_verify_when_mail_returns:
  assumes "get_object_or_404 (profiles w) nid = Inr profile"
    and "http_method req1 = ''POST''" and "POST req1 ''action'' = Some ''send_otp''"
    and "session req1 (otp_key nid) = None \<or> (\<exists>p0. session req1 (otp_key nid) = Some (SDict p0))"
    and "strip (post_or_empty req1 ''email'') \<noteq> []"
    and "CHR ''@'' \<in> set (strip (post_or_empty req1 ''email''))"
    and "send_mail_outcome env1 \<noteq> Raised"
    and "http_method req2 = ''POST''" and "POST req2 ''action'' = Some ''verify_otp''"
    and "post_or_empty req2 ''access_code'' = format_06d (randbelow env1 1000000)"
    and "reason_input req2 \<noteq> []"
    and "now env2 \<le> now env1 + timedelta_minutes (getattr (OTP_TTL_MINUTES cfg) 5)"
    and "0 < getattr (OTP_MAX_ATTEMPTS cfg) 5"
  shows "\<exists>ctx1 s1 w1 s2.
      doctor_access cfg env1 w req1 nid = Inr (Render ctx1 200, s1, w1)
    \<and> doctor_access cfg env2 w1 (req2\<lparr>session := s1\<rparr>) nid =
        Inr (Redirect ''doctor_profile'' nid, s2, w1)
    \<and> s2 (otp_key nid) = None
    \<and> s2 (access_key nid) = Some (SBool True)
    \<and> s2 (access_key nid @ ''_email'') = Some (SStr (strip (post_or_empty req1 ''email'')))
    \<and> s2 (access_key nid @ ''_reason'') = Some (SStr (reason_input req2))
    \<and> doctor_access cfg env3 w1 (req2\<lparr>session := s2\<rparr>) nid =
        Inr (Render \<lparr>otp_pending = False, email_value = [], otp_info = None,
               error = Some ''Request an OTP first by entering your email.''\<rparr> 400,
             s2, w1)"
proof -
  define p where "p = \<lparr>email = strip (post_or_empty req1 ''email''),
      code = format_06d (randbelow env1 1000000),
      expires_at = now env1 + timedelta_minutes (getattr (OTP_TTL_MINUTES cfg) 5),
      attempts = 0\<rparr>"
  define s1 where "s1 = (session req1)(otp_key nid \<mapsto> SDict p)"
  define s2 where "s2 = (s1(access_key nid \<mapsto> SBool True,
      access_key nid @ ''_email'' \<mapsto> SStr (email p),
      access_key nid @ ''_reason'' \<mapsto> SStr (reason_input req2)))(otp_key nid := None)"
  from doctor_access_issues [OF assms(1-7), of cfg] obtain ctx1 m
    where issue: "doctor_access cfg env1 w req1 nid = Inr (Render ctx1 200, s1, w\<lparr>outbox := outbox w @ [m]\<rparr>)"
    unfolding s1_def p_def by blast
  let ?w1 = "w\<lparr>outbox := outbox w @ [m]\<rparr>"
  have prof1: "get_object_or_404 (profiles ?w1) nid = Inr profile"
    using assms(1) by simp
  have post2: "http_method (req2\<lparr>session := s\<rparr>) = ''POST''"
      "POST (req2\<lparr>session := s\<rparr>) ''action'' = Some ''verify_otp''" for s
    using assms(8,9) by (simp_all add: request_session_update)
  have pend: "session (req2\<lparr>session := s1\<rparr>) (otp_key nid) = Some (SDict p)"
    by (simp add: s1_def)
  have live: "now env2 \<le> expires_at p" using assms(12) by (simp add: p_def)
  have fresh: "attempts p < getattr (OTP_MAX_ATTEMPTS cfg) 5" using assms(13) by (simp add: p_def)
  have rsn: "reason_input (req2\<lparr>session := s1\<rparr>) \<noteq> []"
    using assms(11) by (simp add: request_session_update)
  have stored: "code p \<noteq> []" by (simp add: p_def format_06d_not_empty)
  have same: "code_input (req2\<lparr>session := s1\<rparr>) = code p"
    using assms(10) by (simp add: request_session_update code_input_def p_def strip_format_06d)
  from verify_match [OF prof1 post2 pend live fresh rsn stored same]
  have ok: "doctor_access cfg env2 ?w1 (req2\<lparr>session := s1\<rparr>) nid =
      Inr (Redirect ''doctor_profile'' nid, s2, ?w1)"
    by (simp add: s2_def request_session_update)
  have gone: "s2 (otp_key nid) = None" by (simp add: s2_def)
  then have "\<not> truthy (session (req2\<lparr>session := s2\<rparr>) (otp_key nid))" by simp
  from verify_no_challenge [OF prof1 post2 this]
  have again: "doctor_access cfg env3 ?w1 (req2\<lparr>session := s2\<rparr>) nid =
      Inr (Render \<lparr>otp_pending = False, email_value = [], otp_info = None,
             error = Some ''Request an OTP first by entering your email.''\<rparr> 400, s2, ?w1)"
    by simp
  have g1: "s2 (access_key nid) = Some (SBool True)"
    using otp_key_not_access_key(1) [of nid nid] access_key_suffixes [of nid]
    by (simp add: s2_def)
  have g2: "s2 (access_key nid @ ''_email'') = Some (SStr (strip (post_or_empty req1 ''email'')))"
    using otp_key_not_access_key(2) [of nid nid "''_email''"] access_key_suffixes [of nid]
    by (simp add: s2_def p_def)
  have g3: "s2 (access_key nid @ ''_reason'') = Some (SStr (reason_input req2))"
    using otp_key_not_access_key(2) [of nid nid "''_reason''"]
    by (simp add: s2_def)
  from issue ok gone g1 g2 g3 again show ?thesis by blast
qed


lemma format_06d_42: "format_06d 42 = ''000042''"
  by code_simp

lemma send_request_fields:
  "http_method (send_request a s) = ''POST''"
  "POST (send_request a s) ''action'' = Some ''send_otp''"
  "session (send_request a s) = s"
  "post_or_empty (send_request a s) ''email'' = a"
  by (simp_all add: send_request_def post_or_empty_def)

lemma example_email_stripped: "strip ''nurse@example.com'' = ''nurse@example.com''"
  by (simp add: strip_def isspace_def)

lemma issue_then_verify_when_mail_returns_example:
  "\<exists>ctx1 s1 w1 s2.
      doctor_access project_settings (example_env 0 Delivered) example_world
        (send_request ''nurse@example.com'' Map.empty) ''12345678'' = Inr (Render ctx1 200, s1, w1)
    \<and> doctor_access project_settings (example_env 1000000 Delivered) w1
        ((verify_request ''000042'' ''routine check'' Map.empty)\<lparr>session := s1\<rparr>) ''12345678'' =
        Inr (Redirect ''doctor_profile'' ''12345678'', s2, w1)
    \<and> s2 (otp_key ''12345678'') = None
    \<and> s2 (access_key ''12345678'') = Some (SBool True)
    \<and> s2 (access_key ''12345678'' @ ''_email'') = Some (SStr ''nurse@example.com'')
    \<and> s2 (access_key ''12345678'' @ ''_reason'') = Some (SStr ''routine check'')
    \<and> doctor_access project_settings (example_env 2000000 Delivered) w1
        ((verify_request ''000042'' ''routine check'' Map.empty)\<lparr>session := s2\<rparr>) ''12345678'' =
        Inr (Render \<lparr>otp_pending = False, email_value = [], otp_info = None,
               error = Some ''Request an OTP first by entering your email.''\<rparr> 400,
             s2, w1)"
proof -
  let ?req1 = "send_request ''nurse@example.com'' Map.empty"
  let ?req2 = "verify_request ''000042'' ''routine check'' Map.empty"
  have h4: "session ?req1 (otp_key ''12345678'') = None
      \<or> (\<exists>p0. session ?req1 (otp_key ''12345678'') = Some (SDict p0))"
    by (simp add: send_request_fields)
  have h5: "strip (post_or_empty ?req1 ''email'') \<noteq> []"
    by (simp add: send_request_fields example_email_stripped)
  have h6: "CHR ''@'' \<in> set (strip (post_or_empty ?req1 ''email''))"
    by (simp add: send_request_fields example_email_stripped)
  have h7: "send_mail_outcome (example_env 0 Delivered) \<noteq> Raised"
    by (simp add: example_env_fields)
  have h10: "post_or_empty ?req2 ''access_code'' =
      format_06d (randbelow (example_env 0 Delivered) 1000000)"
    by (simp add: verify_request_fields example_env_fields format_06d_42)
  have h11: "reason_input ?req2 \<noteq> []"
    by (simp add: example_inputs_stripped)
  have h12: "now (example_env 1000000 Delivered) \<le> now (example_env 0 Delivered)
      + timedelta_minutes (getattr (OTP_TTL_MINUTES project_settings) 5)"
    by (simp add: example_env_fields timedelta_minutes_def getattr_def project_settings_def)
  have h13: "0 < getattr (OTP_MAX_ATTEMPTS project_settings) 5"
    by (simp add: default_max_attempts)
  from issue_then_verify_when_mail_returns [OF example_lookup send_request_fields(1,2) h4 h5 h6 h7
      verify_request_fields(1,2) h10 h11 h12 h13, of "example_env 2000000 Delivered"]
  show ?thesis
    by (simp add: send_request_fields example_email_stripped example_inputs_stripped)
qed

section \<open>The attempts counter stays within its bounds\<close>

lemma send_otp_bounds:
  assumes "send_otp cfg env w req profile ctx0 = Inr (resp, s', w')"
    and "s' (otp_key k) = Some (SDict q)"
    and "0 \<le> M"
    and "\<And>p. session req (otp_key k) = Some (SDict p) \<Longrightarrow> 0 \<le> attempts p \<and> attempts p \<le> M"
  shows "0 \<le> attempts q \<and> attempts q \<le> M"
proof (cases "s' = session req")
  case True
  with assms(2,4) show ?thesis by simp
next
  case False
  with assms(1) have s': "s' = (session req)(otp_key (national_id profile) \<mapsto>
      SDict \<lparr>email = strip (post_or_empty req ''email''),
             code = format_06d (randbelow env 1000000),
             expires_at = now env + timedelta_minutes (getattr (OTP_TTL_MINUTES cfg) 5),
             attempts = 0\<rparr>)"
    by (auto simp: send_otp_def Let_def split: if_splits mail_outcome.splits)
  show ?thesis
  proof (cases "k = national_id profile")
    case True
    with s' assms(2) have "attempts q = 0" by auto
    with assms(3) show ?thesis by simp
  next
    case False
    with s' assms(2) have "session req (otp_key k) = Some (SDict q)"
      by (simp add: otp_key_inject)
    then show ?thesis by (rule assms(4))
  qed
qed

lemma verify_otp_bounds:
  assumes "verify_otp cfg env w req profile ctx0 = Inr (resp, s', w')"
    and "s' (otp_key k) = Some (SDict q)"
    and "\<And>p. session req (otp_key k) = Some (SDict p) \<Longrightarrow>
           0 \<le> attempts p \<and> attempts p \<le> getattr (OTP_MAX_ATTEMPTS cfg) 5"
  shows "0 \<le> attempts q \<and> attempts q \<le> getattr (OTP_MAX_ATTEMPTS cfg) 5"
proof (cases "session req (otp_key (national_id profile))")
  case None
  with assms(1) have "s' = session req" by (simp add: verify_otp_def Let_def)
  with assms(2,3) show ?thesis by simp
next
  case (Some v)
  show ?thesis
  proof (cases v)
    case (SDict p)
    note pending = Some [unfolded SDict]
    from assms(1) pending consider
        (same) "s' = session req"
      | (cleared) "s' = (session req)(otp_key (national_id profile) := None)"
      | (granted) "s' = ((session req)
            (access_key (national_id profile) \<mapsto> SBool True,
             access_key (national_id profile) @ ''_email'' \<mapsto> SStr (email p),
             access_key (national_id profile) @ ''_reason'' \<mapsto> SStr (reason_input req)))
            (otp_key (national_id profile) := None)"
      | (counted) "attempts p < getattr (OTP_MAX_ATTEMPTS cfg) 5"
          "s' = (session req)(otp_key (national_id profile) \<mapsto>
                  SDict (p\<lparr>attempts := attempts p + 1\<rparr>))"
      by (auto simp: verify_otp_def Let_def split: if_splits)
    then show ?thesis
    proof cases
      case same
      with assms(2,3) show ?thesis by simp
    next
      case cleared
      with assms(2) have "session req (otp_key k) = Some (SDict q)"
        by (simp split: if_splits)
      then show ?thesis by (rule assms(3))
    next
      case granted
      with assms(2) have "session req (otp_key k) = Some (SDict q)"
        by (simp add: otp_key_not_access_key split: if_splits)
      then show ?thesis by (rule assms(3))
    next
      case counted
      show ?thesis
      proof (cases "k = national_id profile")
        case True
        with counted(2) assms(2) have q: "q = p\<lparr>attempts := attempts p + 1\<rparr>" by simp
        from pending True have "0 \<le> attempts p" using assms(3) by simp
        with counted(1) q show ?thesis by simp
      next
        case False
        with counted(2) assms(2) have "session req (otp_key k) = Some (SDict q)"
          by (simp add: otp_key_inject)
        then show ?thesis by (rule assms(3))
      qed
    qed
  next
    case (SBool b)
    with Some assms(1) have "s' = session req"
      by (cases b) (simp_all add: verify_otp_def Let_def)
    with assms(2,3) show ?thesis by simp
  next
    case (SStr t)
    with Some assms(1) have "s' = session req"
      by (cases "t = []") (simp_all add: verify_otp_def Let_def)
    with assms(2,3) show ?thesis by simp
  qed
qed

lemma doctor_access_bounds:
  assumes "doctor_access cfg env w req nid = Inr (resp, s', w')"
    and "s' (otp_key k) = Some (SDict q)"
    and "0 \<le> getattr (OTP_MAX_ATTEMPTS cfg) 5"
    and "\<And>p. session req (otp_key k) = Some (SDict p) \<Longrightarrow>
           0 \<le> attempts p \<and> attempts p \<le> getattr (OTP_MAX_ATTEMPTS cfg) 5"
  shows "0 \<le> attempts q \<and> attempts q \<le> getattr (OTP_MAX_ATTEMPTS cfg) 5"
proof -
  from assms(1) consider
      (send) profile ctx0 where "send_otp cfg env w req profile ctx0 = Inr (resp, s', w')"
    | (verify) profile ctx0 where "verify_otp cfg env w req profile ctx0 = Inr (resp, s', w')"
    | (other) "s' = session req"
    by (auto simp: doctor_access_def Let_def split: sum.splits option.splits if_splits)
  then show ?thesis
  proof cases
    case send
    then show ?thesis using assms(2,3,4) by (rule send_otp_bounds)
  next
    case verify
    then show ?thesis using assms(2,4) by (rule verify_otp_bounds)
  next
    case other
    with assms(2,4) show ?thesis by simp
  qed
qed

lemma reachable_bounds:
  assumes "reachable cfg s" and "0 \<le> getattr (OTP_MAX_ATTEMPTS cfg) 5"
  shows "s (otp_key k) = Some (SDict q) \<Longrightarrow>
    0 \<le> attempts q \<and> attempts q \<le> getattr (OTP_MAX_ATTEMPTS cfg) 5"
  using assms(1)
proof (induction arbitrary: k q rule: reachable.induct)
  case start
  then show ?case by simp
next
  case (step request env w nid resp s' w')
  from step.hyps(2) step.prems assms(2) show ?case
    by (rule doctor_access_bounds) (rule step.IH)
qed

text \<open>
  Claim C10. In every session reachable from the empty session by requests to
  \<^verbatim>\<open>doctor_access\<close> (issuing and verifying, for any profiles, inputs, times and mail
  outcomes), a pending challenge has \<open>0 \<le> attempts \<le> max_attempts\<close>, for every setting
  \<^verbatim>\<open>OTP_MAX_ATTEMPTS\<close> that is not negative, and so for the default 5: \<^verbatim>\<open>send_otp\<close> stores the
  counter 0, and \<^verbatim>\<open>verify_otp\<close> stores \<open>attempts + 1\<close> only after the test
  \<open>attempts \<ge> max_attempts\<close> has failed.
\<close>

theorem attempts_within_bounds:
  assumes "reachable cfg s"
    and "0 \<le> getattr (OTP_MAX_ATTEMPTS cfg) 5"
    and "s (otp_key nid) = Some (SDict p)"
  shows "0 \<le> attempts p \<and> attempts p \<le> getattr (OTP_MAX_ATTEMPTS cfg) 5"
  using reachable_bounds [OF assms(1,2) assms(3)] .


lemma example_reachable:
  "reachable project_settings
     ([otp_key ''12345678'' \<mapsto> SDict (example_challenge 0)]
        (otp_key ''12345678'' \<mapsto> SDict (example_challenge 1)))"
proof -
  let ?s1 = "[otp_key ''12345678'' \<mapsto> SDict (example_challenge 0)]"
  let ?req2 = "verify_request ''123456'' ''routine check'' ?s1"
  have "reachable project_settings (session (send_request ''nurse@example.com'' Map.empty))"
    by (simp add: send_request_fields reachable.start)
  from this example_issue have "reachable project_settings ?s1"
    by (rule reachable.step)
  then have r1: "reachable project_settings (session ?req2)"
    by (simp add: verify_request_fields)
  have pend: "session ?req2 (otp_key ''12345678'') = Some (SDict (example_challenge 0))"
    by (simp add: verify_request_fields)
  have live: "now (example_env 0 Delivered) \<le> expires_at (example_challenge 0)"
    by (simp add: example_env_fields example_challenge_fields)
  have few: "attempts (example_challenge 0) < getattr (OTP_MAX_ATTEMPTS project_settings) 5"
    by (simp add: default_max_attempts example_challenge_fields)
  have rsn: "reason_input ?req2 \<noteq> []" by (simp add: example_inputs_stripped)
  have wrong: "code_input ?req2 \<noteq> code (example_challenge 0)"
    by (simp add: example_inputs_stripped example_challenge_fields)
  from verify_mismatch [OF example_lookup verify_request_fields(1,2) pend live few rsn wrong]
  have "doctor_access project_settings (example_env 0 Delivered) example_world ?req2 ''12345678'' =
      Inr (Render \<lparr>otp_pending = True, email_value = ''nurse@example.com'', otp_info = None,
             error = Some ''Invalid code. Please try again.''\<rparr> 401,
           ?s1(otp_key ''12345678'' \<mapsto> SDict (example_challenge 1)), example_world)"
    by (simp add: verify_request_fields example_challenge_fields)
  with r1 show ?thesis by (rule reachable.step)
qed

theorem attempts_within_bounds_witness:
  "reachable project_settings
     ([otp_key ''12345678'' \<mapsto> SDict (example_challenge 0)]
        (otp_key ''12345678'' \<mapsto> SDict (example_challenge 1)))
   \<and> 0 \<le> attempts (example_challenge 1)
   \<and> attempts (example_challenge 1) \<le> getattr (OTP_MAX_ATTEMPTS project_settings) 5
   \<and> attempts (example_challenge 1) = 1"
proof -
  let ?s = "[otp_key ''12345678'' \<mapsto> SDict (example_challenge 0)]
        (otp_key ''12345678'' \<mapsto> SDict (example_challenge 1))"
  have h2: "0 \<le> getattr (OTP_MAX_ATTEMPTS project_settings) 5"
    by (simp add: default_max_attempts)
  have h3: "?s (otp_key ''12345678'') = Some (SDict (example_challenge 1))" by simp
  from attempts_within_bounds [OF example_reachable h2 h3] example_reachable
  show ?thesis by (simp add: example_challenge_fields)
qed

section \<open>The cooldown of the owner notification\<close>

lemma notify_suppressed:
  assumes "owner_email profile \<noteq> []"
    and "e \<in> set (access_logs w)"
    and "profile_id e = pk profile" and "event_type e = ev" and "notified e"
    and "now env - timedelta_minutes (getattr (ACCESS_NOTIFY_COOLDOWN_MINUTES cfg) 30) \<le> created_at e"
  shows "notify_owner_if_needed cfg env w profile ev log_obj = w"
proof -
  from assms(2-6) have "filter (\<lambda>e. profile_id e = pk profile \<and> event_type e = ev \<and> notified e
      \<and> now env - timedelta_minutes (getattr (ACCESS_NOTIFY_COOLDOWN_MINUTES cfg) 30) \<le> created_at e)
      (access_logs w) \<noteq> []"
    by (auto simp: filter_empty_conv)
  then show ?thesis by (simp add: notify_owner_if_needed_def Let_def)
qed

lemma notify_dispatches:
  assumes "owner_email profile \<noteq> []"
    and "\<And>e. e \<in> set (access_logs w) \<Longrightarrow> profile_id e = pk profile \<Longrightarrow> event_type e = ev
           \<Longrightarrow> notified e
           \<Longrightarrow> created_at e < now env - timedelta_minutes (getattr (ACCESS_NOTIFY_COOLDOWN_MINUTES cfg) 30)"
  shows "\<exists>m. outbox (notify_owner_if_needed cfg env w profile ev log_obj) = outbox w @ [m]
           \<and> recipient_list m = [owner_email profile]"
proof -
  have "filter (\<lambda>e. profile_id e = pk profile \<and> event_type e = ev \<and> notified e
      \<and> now env - timedelta_minutes (getattr (ACCESS_NOTIFY_COOLDOWN_MINUTES cfg) 30) \<le> created_at e)
      (access_logs w) = []"
    using assms(2) by (fastforce simp: filter_empty_conv)
  with assms(1) show ?thesis
    by (cases "send_mail_outcome env") (simp_all add: notify_owner_if_needed_def Let_def)
qed

text \<open>
  Claim C9. With a cooldown of 30 minutes (the default of
  \<^verbatim>\<open>ACCESS_NOTIFY_COOLDOWN_MINUTES\<close>) and a profile with an owner email: when the log holds
  an entry of this profile with event type \<^verbatim>\<open>doctor_view\<close>, marked notified and created at
  \<open>T\<close>, and no notified entry of that profile and type is newer, then
  \<^verbatim>\<open>_notify_owner_if_needed\<close> for a \<^verbatim>\<open>doctor_view\<close> event at \<open>T + 10 min\<close> hands no message to
  \<^verbatim>\<open>send_mail\<close> and changes nothing, and at \<open>T + 31 min\<close> it hands exactly one message,
  addressed to the owner, to \<^verbatim>\<open>send_mail\<close>.
\<close>

theorem cooldown_thirty_minutes:
  assumes "getattr (ACCESS_NOTIFY_COOLDOWN_MINUTES cfg) 30 = 30"
    and "owner_email profile \<noteq> []"
    and "old \<in> set (access_logs w)"
    and "profile_id old = pk profile" and "event_type old = ''doctor_view''"
    and "notified old" and "created_at old = T"
    and "\<forall>e \<in> set (access_logs w).
           profile_id e = pk profile \<and> event_type e = ''doctor_view'' \<and> notified e
           \<longrightarrow> created_at e \<le> T"
  shows "(now env = T + timedelta_minutes 10 \<longrightarrow>
            notify_owner_if_needed cfg env w profile ''doctor_view'' log_obj = w)
         \<and> (now env = T + timedelta_minutes 31 \<longrightarrow>
            (\<exists>m. outbox (notify_owner_if_needed cfg env w profile ''doctor_view'' log_obj)
                    = outbox w @ [m]
                  \<and> recipient_list m = [owner_email profile]))
         \<and> getattr (ACCESS_NOTIFY_COOLDOWN_MINUTES project_settings) 30 = 30"
proof (intro conjI impI)
  assume "now env = T + timedelta_minutes 10"
  with assms(1,7)
  have "now env - timedelta_minutes (getattr (ACCESS_NOTIFY_COOLDOWN_MINUTES cfg) 30)
      \<le> created_at old"
    by (simp add: timedelta_minutes_def)
  with assms(2-6) show "notify_owner_if_needed cfg env w profile ''doctor_view'' log_obj = w"
    by (rule notify_suppressed)
next
  assume t: "now env = T + timedelta_minutes 31"
  have "created_at e < now env - timedelta_minutes (getattr (ACCESS_NOTIFY_COOLDOWN_MINUTES cfg) 30)"
    if "e \<in> set (access_logs w)" "profile_id e = pk profile" "event_type e = ''doctor_view''"
      "notified e" for e
  proof -
    from that assms(8) have "created_at e \<le> T" by blast
    with t assms(1) show ?thesis by (simp add: timedelta_minutes_def)
  qed
  with assms(2)
  show "\<exists>m. outbox (notify_owner_if_needed cfg env w profile ''doctor_view'' log_obj)
               = outbox w @ [m]
             \<and> recipient_list m = [owner_email profile]"
    by (rule notify_dispatches)
next
  show "getattr (ACCESS_NOTIFY_COOLDOWN_MINUTES project_settings) 30 = 30"
    by (simp add: project_settings_def getattr_def)
qed

lemma example_entry_fields:
  "log_id (example_entry i ev t n) = i"
  "profile_id (example_entry i ev t n) = 1"
  "event_type (example_entry i ev t n) = ev"
  "created_at (example_entry i ev t n) = t"
  "notified (example_entry i ev t n) = n"
  "(example_entry i ev t n)\<lparr>notified := b\<rparr> = example_entry i ev t b"
  by (simp_all add: example_entry_def)

lemma logged_world_fields:
  "profiles (logged_world rows) = [example_profile]"
  "access_logs (logged_world rows) = rows"
  "outbox (logged_world rows) = []"
  by (simp_all add: logged_world_def)

lemma example_profile_fields:
  "pk example_profile = 1"
  "national_id example_profile = ''12345678''"
  "owner_email example_profile = ''doc@example.com''"
  by (simp_all add: example_profile_def)

theorem cooldown_thirty_minutes_witness:
  "notify_owner_if_needed project_settings (example_env 600000000 Delivered)
      (logged_world [example_entry 1 ''doctor_view'' 0 True,
                     example_entry 2 ''doctor_view'' 600000000 False])
      example_profile ''doctor_view'' (example_entry 2 ''doctor_view'' 600000000 False)
     = logged_world [example_entry 1 ''doctor_view'' 0 True,
                     example_entry 2 ''doctor_view'' 600000000 False]
   \<and> (\<exists>m. outbox (notify_owner_if_needed project_settings (example_env 1860000000 Delivered)
          (logged_world [example_entry 1 ''doctor_view'' 0 True,
                         example_entry 2 ''doctor_view'' 1860000000 False])
          example_profile ''doctor_view'' (example_entry 2 ''doctor_view'' 1860000000 False))
        = [m] \<and> recipient_list m = [''doc@example.com''])"
proof -
  have h1: "getattr (ACCESS_NOTIFY_COOLDOWN_MINUTES project_settings) 30 = 30"
    by (simp add: project_settings_def getattr_def)
  have h2: "owner_email example_profile \<noteq> []" by (simp add: example_profile_fields)
  have h3: "example_entry 1 ''doctor_view'' 0 True
      \<in> set (access_logs (logged_world [example_entry 1 ''doctor_view'' 0 True,
                     example_entry 2 ''doctor_view'' t False]))" for t
    by (simp add: logged_world_fields)
  have h4: "profile_id (example_entry 1 ''doctor_view'' 0 True) = pk example_profile"
    by (simp add: example_entry_fields example_profile_fields)
  have h5: "event_type (example_entry 1 ''doctor_view'' 0 True) = ''doctor_view''"
    by (simp add: example_entry_fields)
  have h6: "notified (example_entry 1 ''doctor_view'' 0 True)"
    by (simp add: example_entry_fields)
  have h7: "created_at (example_entry 1 ''doctor_view'' 0 True) = 0"
    by (simp add: example_entry_fields)
  have h8: "\<forall>e \<in> set (access_logs (logged_world [example_entry 1 ''doctor_view'' 0 True,
                     example_entry 2 ''doctor_view'' t False])).
           profile_id e = pk example_profile \<and> event_type e = ''doctor_view'' \<and> notified e
           \<longrightarrow> created_at e \<le> 0" for t
    by (simp add: logged_world_fields example_entry_fields)
  show ?thesis
    using cooldown_thirty_minutes [where env = "example_env 600000000 Delivered"
        and log_obj = "example_entry 2 ''doctor_view'' 600000000 False",
        OF h1 h2 h3 [of 600000000] h4 h5 h6 h7 h8 [of 600000000]]
      cooldown_thirty_minutes [where env = "example_env 1860000000 Delivered"
        and log_obj = "example_entry 2 ''doctor_view'' 1860000000 False",
        OF h1 h2 h3 [of 1860000000] h4 h5 h6 h7 h8 [of 1860000000]]
    by (simp add: example_env_fields timedelta_minutes_def logged_world_fields
        example_profile_fields)
qed

section \<open>Where the code departs from the specification\<close>

text \<open>
  Claim C1 says that a failed dispatch of the owner notification leaves the entry
  unmarked, so that a later event of the same type may try again. The code calls
  \<^verbatim>\<open>send_mail\<close> with \<^verbatim>\<open>fail_silently=True\<close> and ignores what it returns: when delivery fails
  and the call returns, the statements after it run, the entry is marked notified and
  saved, and the next event of that type within the cooldown is suppressed. Only an
  exception raised by the call leaves the entry unmarked. Evaluated here: a first
  \<^verbatim>\<open>doctor_view\<close> entry whose mail fails silently ends up marked, and the entry of a
  second \<^verbatim>\<open>doctor_view\<close> event one minute later gets no dispatch at all.
\<close>

theorem failed_dispatch_marks_entry_notified:
  "access_logs (notify_owner_if_needed project_settings (example_env 0 Failed_silently)
      (logged_world [example_entry 1 ''doctor_view'' 0 False])
      example_profile ''doctor_view'' (example_entry 1 ''doctor_view'' 0 False))
     = [example_entry 1 ''doctor_view'' 0 True]
   \<and> notify_owner_if_needed project_settings (example_env 60000000 Delivered)
      (logged_world [example_entry 1 ''doctor_view'' 0 True,
                     example_entry 2 ''doctor_view'' 60000000 False])
      example_profile ''doctor_view'' (example_entry 2 ''doctor_view'' 60000000 False)
     = logged_world [example_entry 1 ''doctor_view'' 0 True,
                     example_entry 2 ''doctor_view'' 60000000 False]
   \<and> access_logs (notify_owner_if_needed project_settings (example_env 0 Raised)
      (logged_world [example_entry 1 ''doctor_view'' 0 False])
      example_profile ''doctor_view'' (example_entry 1 ''doctor_view'' 0 False))
     = [example_entry 1 ''doctor_view'' 0 False]"
  by (simp add: notify_owner_if_needed_def Let_def example_env_fields logged_world_fields
      example_entry_fields example_profile_fields project_settings_def getattr_def
      timedelta_minutes_def)

text \<open>
  Claim C2 says that the gate is evaluated for the event type of the entry just recorded.
  \<^verbatim>\<open>doctor_health_monitoring_view\<close> records a \<^verbatim>\<open>doctor_health_view\<close> entry and then calls
  \<^verbatim>\<open>_notify_owner_if_needed(profile, 'doctor_view', log_obj)\<close>; the three sibling views pass
  the type they recorded. Evaluated here, one minute after a notified entry: a notified
  \<^verbatim>\<open>doctor_health_view\<close> entry does not suppress the notification of the next health view
  (a message is dispatched and the new \<^verbatim>\<open>doctor_health_view\<close> entry is marked), while a
  notified \<^verbatim>\<open>doctor_view\<close> entry does suppress it.
\<close>

theorem health_view_gate_uses_doctor_view:
  "(\<exists>resp w'.
      doctor_health_monitoring_view project_settings (example_env 60000000 Delivered)
        (logged_world [example_entry 1 ''doctor_health_view'' 0 True])
        (view_request granted_session) ''12345678'' = Inr (resp, w')
      \<and> map event_type (access_logs w') = [''doctor_health_view'', ''doctor_health_view'']
      \<and> map notified (access_logs w') = [True, True]
      \<and> length (outbox w') = 1)
   \<and> (\<exists>resp w'.
      doctor_health_monitoring_view project_settings (example_env 60000000 Delivered)
        (logged_world [example_entry 1 ''doctor_view'' 0 True])
        (view_request granted_session) ''12345678'' = Inr (resp, w')
      \<and> map event_type (access_logs w') = [''doctor_view'', ''doctor_health_view'']
      \<and> map notified (access_logs w') = [True, False]
      \<and> outbox w' = [])"
  by (simp add: doctor_health_monitoring_view_def protected_view_def log_and_notify_def
      create_access_log_def notify_owner_if_needed_def Let_def get_object_or_404_def
      fresh_id_def view_request_def granted_session_def access_key_def
      example_env_fields logged_world_fields example_entry_fields example_profile_fields
      project_settings_def getattr_def timedelta_minutes_def)

lemma send_otp_mail_raises:
  assumes "strip (post_or_empty req ''email'') \<noteq> []"
    and "CHR ''@'' \<in> set (strip (post_or_empty req ''email''))"
    and "send_mail_outcome env = Raised"
  shows "send_otp cfg env w req profile ctx0 = Inl Uncaught_exception"
  using assms by (simp add: send_otp_def Let_def)

lemma injected_address_stripped: "strip injected_address = injected_address"
  by (simp add: injected_address_def strip_def isspace_def)

text \<open>
  Claim C4 says that for every valid email the issue followed by a verification with
  the issued code succeeds. \<^verbatim>\<open>send_otp\<close> accepts every stripped address that is not empty
  and holds an @, stores the challenge in the session and then calls \<^verbatim>\<open>send_mail\<close> outside
  any \<^verbatim>\<open>try\<close>; \<^verbatim>\<open>fail_silently=True\<close> silences delivery errors only. For an address with a
  line break inside, which the test accepts, building the message raises: the exception
  leaves the view, the request fails and its session is not kept, so no challenge is
  pending. \<^verbatim>\<open>_notify_owner_if_needed\<close> wraps the same call in \<^verbatim>\<open>try\<close>. Evaluated here: the
  address passes the test of the view, the issue request fails with the exception, and the
  verification that follows in the session as it was, with the code of the draw and a
  reason, is refused with "Request an OTP first by entering your email.".
\<close>

theorem issue_fails_when_mail_raises:
  "strip (post_or_empty (send_request injected_address Map.empty) ''email'') \<noteq> []
   \<and> CHR ''@'' \<in> set (strip (post_or_empty (send_request injected_address Map.empty) ''email''))
   \<and> doctor_access project_settings (example_env 0 Raised) example_world
        (send_request injected_address Map.empty) ''12345678'' = Inl Uncaught_exception
   \<and> format_06d (randbelow (example_env 0 Raised) 1000000) = ''000042''
   \<and> doctor_access project_settings (example_env 1000000 Delivered) example_world
        (verify_request ''000042'' ''routine check'' Map.empty) ''12345678'' =
       Inr (Render \<lparr>otp_pending = False, email_value = [], otp_info = None,
              error = Some ''Request an OTP first by entering your email.''\<rparr> 400,
            Map.empty, example_world)"
proof -
  let ?req = "send_request injected_address Map.empty"
  have a: "strip (post_or_empty ?req ''email'') \<noteq> []"
    by (simp add: send_request_fields injected_address_stripped) (simp add: injected_address_def)
  have b: "CHR ''@'' \<in> set (strip (post_or_empty ?req ''email''))"
    by (simp add: send_request_fields injected_address_stripped) (simp add: injected_address_def)
  have c: "send_mail_outcome (example_env 0 Raised) = Raised"
    by (simp add: example_env_fields)
  have none: "\<not> truthy (session ?req (otp_key ''12345678''))"
    by (simp add: send_request_fields)
  have issue: "doctor_access project_settings (example_env 0 Raised) example_world ?req ''12345678''
      = Inl Uncaught_exception"
    by (simp add: doctor_access_send_first [OF example_lookup send_request_fields(1,2) none]
        send_otp_mail_raises [OF a b c])
  have d: "format_06d (randbelow (example_env 0 Raised) 1000000) = ''000042''"
    by (simp add: example_env_fields format_06d_42)
  have none2: "\<not> truthy (session (verify_request ''000042'' ''routine check'' Map.empty)
      (otp_key ''12345678''))"
    by (simp add: verify_request_fields)
  have verify: "doctor_access project_settings (example_env 1000000 Delivered) example_world
        (verify_request ''000042'' ''routine check'' Map.empty) ''12345678'' =
       Inr (Render \<lparr>otp_pending = False, email_value = [], otp_info = None,
              error = Some ''Request an OTP first by entering your email.''\<rparr> 400,
            Map.empty, example_world)"
    using verify_no_challenge [OF example_lookup verify_request_fields(1,2) none2]
    by (simp add: verify_request_fields)
  from a b issue d verify show ?thesis by blast
qed

end
